theory Spec2Isabelle
  imports Complex_Main
begin

section \<open>JavaScript numbers\<close>

text \<open>
  The slider of \<^verbatim>\<open>OpenVideoPlayer.js\<close> computes with JavaScript numbers. A number is
  modelled as a finite value, one of the two infinities, or NaN. The special values are
  kept, because the code divides by a box width and by \<open>max - min\<close>, which may be zero,
  and compares with \<open>===\<close>, under which NaN differs from itself. The two zeros of
  binary64 are one value here, read as \<open>+0\<close>.

  The operations \<open>add\<close>, \<open>sub\<close>, \<open>mul\<close> and \<open>divide_n\<close> give the exact result of an
  operation on finite numbers. The operators of JavaScript round that result to binary64;
  \<open>add64\<close>, \<open>sub64\<close>, \<open>mul64\<close> and \<open>div64\<close> below do so. The notification, the pointer
  handlers and the bound on the raw position are stated with the exact operations; the
  derivation of the value, where the rounding decides which multiple of the step comes
  out, is stated with the rounded ones.
\<close>

datatype number = Fin real | PInf | NInf | NaN

fun neg :: "number \<Rightarrow> number" where
  "neg (Fin a) = Fin (- a)"
| "neg PInf = NInf"
| "neg NInf = PInf"
| "neg NaN = NaN"

fun add :: "number \<Rightarrow> number \<Rightarrow> number" where
  "add NaN _ = NaN"
| "add _ NaN = NaN"
| "add (Fin a) (Fin b) = Fin (a + b)"
| "add PInf NInf = NaN"
| "add NInf PInf = NaN"
| "add PInf _ = PInf"
| "add _ PInf = PInf"
| "add NInf _ = NInf"
| "add _ NInf = NInf"

definition sub :: "number \<Rightarrow> number \<Rightarrow> number" where
  "sub a b = add a (neg b)"

fun mul :: "number \<Rightarrow> number \<Rightarrow> number" where
  "mul NaN _ = NaN"
| "mul _ NaN = NaN"
| "mul (Fin a) (Fin b) = Fin (a * b)"
| "mul (Fin a) PInf = (if a = 0 then NaN else if 0 < a then PInf else NInf)"
| "mul (Fin a) NInf = (if a = 0 then NaN else if 0 < a then NInf else PInf)"
| "mul PInf (Fin b) = (if b = 0 then NaN else if 0 < b then PInf else NInf)"
| "mul NInf (Fin b) = (if b = 0 then NaN else if 0 < b then NInf else PInf)"
| "mul PInf PInf = PInf"
| "mul PInf NInf = NInf"
| "mul NInf PInf = NInf"
| "mul NInf NInf = PInf"

fun divide_n :: "number \<Rightarrow> number \<Rightarrow> number" where
  "divide_n NaN _ = NaN"
| "divide_n _ NaN = NaN"
| "divide_n (Fin a) (Fin b) =
     (if b = 0 then (if a = 0 then NaN else if 0 < a then PInf else NInf)
      else Fin (a / b))"
| "divide_n (Fin a) PInf = Fin 0"
| "divide_n (Fin a) NInf = Fin 0"
| "divide_n PInf (Fin b) = (if 0 \<le> b then PInf else NInf)"
| "divide_n NInf (Fin b) = (if 0 \<le> b then NInf else PInf)"
| "divide_n _ _ = NaN"

text \<open>\<open><=\<close> and \<open><\<close>: every comparison with NaN is false.\<close>

fun le :: "number \<Rightarrow> number \<Rightarrow> bool" where
  "le NaN _ = False"
| "le _ NaN = False"
| "le NInf _ = True"
| "le _ PInf = True"
| "le (Fin a) (Fin b) = (a \<le> b)"
| "le _ _ = False"

fun lt :: "number \<Rightarrow> number \<Rightarrow> bool" where
  "lt NaN _ = False"
| "lt _ NaN = False"
| "lt (Fin a) (Fin b) = (a < b)"
| "lt NInf NInf = False"
| "lt NInf _ = True"
| "lt PInf _ = False"
| "lt (Fin a) PInf = True"
| "lt (Fin a) NInf = False"

text \<open>\<open>===\<close> on two numbers, and on two values that are a number or \<open>null\<close>.\<close>

definition strict_eq :: "number \<Rightarrow> number \<Rightarrow> bool" where
  "strict_eq a b = (a \<noteq> NaN \<and> a = b)"

fun strict_eq_opt :: "number option \<Rightarrow> number option \<Rightarrow> bool" where
  "strict_eq_opt None None = True"
| "strict_eq_opt (Some a) (Some b) = strict_eq a b"
| "strict_eq_opt _ _ = False"

text \<open>
  \<open>Math.min\<close> and \<open>Math.max\<close> of two arguments return NaN when an argument is NaN.
  \<open>Math.round\<close> returns the nearest integer, the one towards \<open>+\<infinity>\<close> at a tie, and returns
  NaN and the infinities unchanged.
\<close>

definition Math_min :: "number \<Rightarrow> number \<Rightarrow> number" where
  "Math_min a b = (if a = NaN \<or> b = NaN then NaN else if le a b then a else b)"

definition Math_max :: "number \<Rightarrow> number \<Rightarrow> number" where
  "Math_max a b = (if a = NaN \<or> b = NaN then NaN else if le a b then b else a)"

fun Math_round :: "number \<Rightarrow> number" where
  "Math_round (Fin a) = Fin (of_int \<lfloor>a + 1 / 2\<rfloor>)"
| "Math_round x = x"

section \<open>OpenVideoPlayerUtils\<close>

text \<open>A \<open>DOMRect\<close>, as \<open>getBoundingClientRect\<close> returns it.\<close>

record DOMRect =
  left :: number
  top_r :: number
  right :: number
  bottom :: number
  width :: number
  height :: number

definition isPointWithinBBox :: "DOMRect \<Rightarrow> number \<Rightarrow> number \<Rightarrow> bool" where
  "isPointWithinBBox bbox pointX pointY =
     (le (left bbox) pointX \<and> le (top_r bbox) pointY
      \<and> lt pointX (right bbox) \<and> lt pointY (bottom bbox))"

definition clamp :: "number \<Rightarrow> number \<Rightarrow> number \<Rightarrow> number" where
  "clamp x leftBoundary rightBoundary = Math_max leftBoundary (Math_min x rightBoundary)"

section \<open>OpenVideoPlayerUtils.CachedBBox\<close>

text \<open>
  A \<open>CachedBBox\<close> holds its target element and the cached box, \<open>null\<close> at first.
  The element is represented by what \<open>getBoundingClientRect()\<close> returns for it at the
  moment: the field \<open>element\<close> is the current layout of the element, which the page
  changes (\<open>relayout\<close>) without the cache taking part.
\<close>

record CachedBBox =
  element :: DOMRect
  bbox :: "DOMRect option"

definition CachedBBox_constructor :: "DOMRect \<Rightarrow> CachedBBox" where
  "CachedBBox_constructor el = \<lparr>element = el, bbox = None\<rparr>"

definition reFetchBBox :: "CachedBBox \<Rightarrow> DOMRect \<times> CachedBBox" where
  "reFetchBBox c = (element c, c\<lparr>bbox := Some (element c)\<rparr>)"

text \<open>The getter \<open>value\<close>: the cached box when there is one, a fetched one otherwise.\<close>

definition get_bbox_value :: "CachedBBox \<Rightarrow> DOMRect \<times> CachedBBox" where
  "get_bbox_value c = (case bbox c of Some b \<Rightarrow> (b, c) | None \<Rightarrow> reFetchBBox c)"

text \<open>The callback that the constructor gives to its \<open>ResizeObserver\<close>.\<close>

definition resizeObserver_callback :: "CachedBBox \<Rightarrow> CachedBBox" where
  "resizeObserver_callback c = snd (reFetchBBox c)"

definition relayout :: "DOMRect \<Rightarrow> CachedBBox \<Rightarrow> CachedBBox" where
  "relayout b c = c\<lparr>element := b\<rparr>"

text \<open>
  What happens to one cache over time: the page lays the element out anew, the observer
  signals a resize, or somebody reads \<open>value\<close>. \<open>cache_run\<close> performs a sequence of
  these from left to right.
\<close>

datatype cache_op = Relayout DOMRect | ResizeSignal | ReadValue

fun cache_step :: "cache_op \<Rightarrow> CachedBBox \<Rightarrow> CachedBBox" where
  "cache_step (Relayout b) c = relayout b c"
| "cache_step ResizeSignal c = resizeObserver_callback c"
| "cache_step ReadValue c = snd (get_bbox_value c)"

fun cache_run :: "cache_op list \<Rightarrow> CachedBBox \<Rightarrow> CachedBBox" where
  "cache_run [] c = c"
| "cache_run (x # xs) c = cache_run xs (cache_step x c)"

section \<open>OpenVideoPlayerSlider\<close>

record slider_range =
  min_r :: number
  max_r :: number
  step :: number

text \<open>
  The events that the slider dispatches: \<open>change\<close> with its four fields, \<open>range\<close> with
  a copy of the range, and \<open>resize\<close>. A dispatch is modelled as output: every operation
  returns the events it dispatched, in order.
\<close>

datatype slider_event =
    Change number "number option" bool bool
  | RangeEvent slider_range
  | ResizeEvent

text \<open>
  The private fields of the slider. The class \<open>sliding\<close> of the container is the field
  \<open>sliding\<close>; the inline styles that \<open>#resizeElements\<close> writes are kept as the number
  of pixels (\<open>None\<close>: the property is not set). \<open>sliderPaddingBBox\<close> is the constant of
  that name which the handlers of \<open>#createElements\<close> close over.
\<close>

record slider =
  containerBBox :: CachedBBox
  sliderPaddingBBox :: CachedBBox
  sliding :: bool
  sliderProgress_width :: "number option"
  sliderPointer_left :: "number option"
  ghostSlider_width :: "number option"
  ghostSlider_display :: "string option"
  ghostSliderValue :: "number option"
  range_fld :: slider_range
  rawValue :: number
  lastChange :: "(number \<times> number option) option"

definition getRange :: "slider \<Rightarrow> slider_range" where
  "getRange s = range_fld s"

definition get_rawValue :: "slider \<Rightarrow> number" where
  "get_rawValue s = rawValue s"

definition adjustValue :: "slider \<Rightarrow> number \<Rightarrow> number" where
  "adjustValue s v =
     (let multiplier = divide_n (Fin 1) (step (range_fld s));
          v1 = divide_n (Math_round (mul v multiplier)) multiplier;
          v2 = clamp v1 (min_r (range_fld s)) (max_r (range_fld s))
      in v2)"

definition get_value :: "slider \<Rightarrow> number" where
  "get_value s =
     adjustValue s
       (add (min_r (range_fld s))
          (mul (rawValue s) (sub (max_r (range_fld s)) (min_r (range_fld s)))))"

definition get_ghostValue :: "slider \<Rightarrow> number option" where
  "get_ghostValue s =
     (case ghostSliderValue s of
        None \<Rightarrow> None
      | Some g \<Rightarrow>
          Some (adjustValue s
            (add (min_r (range_fld s))
               (mul g (sub (max_r (range_fld s)) (min_r (range_fld s)))))))"

definition resizeElements :: "slider \<Rightarrow> slider" where
  "resizeElements s =
     (let (bbox, cb) = get_bbox_value (containerBBox s);
          valueSize = clamp (mul (rawValue s) (width bbox)) (Fin 0) (width bbox)
      in (case ghostSliderValue s of
            None \<Rightarrow>
              s\<lparr>containerBBox := cb,
                sliderProgress_width := Some valueSize,
                sliderPointer_left := Some valueSize,
                ghostSlider_width := None,
                ghostSlider_display := Some ''none''\<rparr>
          | Some g \<Rightarrow>
              s\<lparr>containerBBox := cb,
                sliderProgress_width := Some valueSize,
                sliderPointer_left := Some valueSize,
                ghostSlider_width := Some (clamp (mul g (width bbox)) (Fin 0) (width bbox)),
                ghostSlider_display := None\<rparr>))"

definition onResize :: "slider \<Rightarrow> slider \<times> slider_event list" where
  "onResize s = (resizeElements s, [ResizeEvent])"

definition onChange :: "slider \<Rightarrow> slider \<times> slider_event list" where
  "onChange s =
     (let s1 = resizeElements s;
          val = get_value s1;
          ghostVal = get_ghostValue s1
      in if (case lastChange s1 of
               None \<Rightarrow> False
             | Some lc \<Rightarrow> strict_eq (fst lc) val \<and> strict_eq_opt (snd lc) ghostVal)
         then (s1, [])
         else
           (let valueHasChanged =
                  (case lastChange s1 of None \<Rightarrow> True | Some lc \<Rightarrow> \<not> strict_eq (fst lc) val);
                ghostValueHasChanged =
                  (case lastChange s1 of
                     None \<Rightarrow> True
                   | Some lc \<Rightarrow> \<not> strict_eq_opt (snd lc) ghostVal)
            in (s1\<lparr>lastChange := Some (val, ghostVal)\<rparr>,
                [Change val ghostVal valueHasChanged ghostValueHasChanged])))"

text \<open>The method \<open>range(min, max, step)\<close>.\<close>

definition range_op :: "slider \<Rightarrow> number \<Rightarrow> number \<Rightarrow> number \<Rightarrow> slider \<times> slider_event list" where
  "range_op s mn mx st =
     (let s1 = s\<lparr>range_fld := \<lparr>min_r = mn, max_r = mx, step = st\<rparr>\<rparr>;
          r = getRange s1;
          (s2, evs) = onChange s1
      in (s2, RangeEvent r # evs))"

definition set_rawValue :: "slider \<Rightarrow> number \<Rightarrow> slider \<times> slider_event list" where
  "set_rawValue s newRawValue = onChange (s\<lparr>rawValue := clamp newRawValue (Fin 0) (Fin 1)\<rparr>)"

definition set_value :: "slider \<Rightarrow> number \<Rightarrow> slider \<times> slider_event list" where
  "set_value s newValue =
     (let nv = adjustValue s newValue
      in onChange
           (s\<lparr>rawValue :=
                divide_n (sub nv (min_r (range_fld s)))
                  (sub (max_r (range_fld s)) (min_r (range_fld s)))\<rparr>))"

text \<open>
  The events that reach \<open>movePointer\<close>: a mouse event (\<open>click\<close>, \<open>mousemove\<close>) with
  \<open>clientX\<close> and \<open>clientY\<close>, or a \<open>touchmove\<close> with the list \<open>touches\<close>, each touch a
  pair of \<open>clientX\<close> and \<open>clientY\<close>. Reading \<open>e.touches[0].clientX\<close> of an empty list
  throws a TypeError.
\<close>

datatype pointer_event = MouseEvent number number | TouchMoveEvent "(number \<times> number) list"

datatype js_error = TypeError

definition event_clientX :: "pointer_event \<Rightarrow> js_error + number" where
  "event_clientX e =
     (case e of
        TouchMoveEvent touches \<Rightarrow> (case touches of [] \<Rightarrow> Inl TypeError | t # _ \<Rightarrow> Inr (fst t))
      | MouseEvent x y \<Rightarrow> Inr x)"

definition movePointer :: "pointer_event \<Rightarrow> slider \<Rightarrow> js_error + slider \<times> slider_event list" where
  "movePointer e s =
     (case event_clientX e of
        Inl err \<Rightarrow> Inl err
      | Inr clientX \<Rightarrow>
          (let (bbox, cb) = get_bbox_value (containerBBox s);
               progress = sub clientX (left bbox)
           in Inr (onChange
                (s\<lparr>containerBBox := cb,
                   rawValue := clamp (divide_n progress (width bbox)) (Fin 0) (Fin 1),
                   ghostSliderValue := None\<rparr>))))"

definition onDrag :: "slider \<Rightarrow> slider" where
  "onDrag s = s\<lparr>sliding := True\<rparr>"

definition onMove :: "pointer_event \<Rightarrow> slider \<Rightarrow> js_error + slider \<times> slider_event list" where
  "onMove e s = (if \<not> sliding s then Inr (s, []) else movePointer e s)"

definition onDragEnd :: "slider \<Rightarrow> slider" where
  "onDragEnd s = s\<lparr>sliding := False\<rparr>"

definition onClick :: "pointer_event \<Rightarrow> slider \<Rightarrow> js_error + slider \<times> slider_event list" where
  "onClick e s = movePointer e s"

text \<open>
  \<open>changeGhostSlider\<close> is registered for mouse events only and reads \<open>e.clientX\<close> and
  \<open>e.clientY\<close>.
\<close>

definition changeGhostSlider :: "number \<Rightarrow> number \<Rightarrow> slider \<Rightarrow> slider \<times> slider_event list" where
  "changeGhostSlider clientX clientY s =
     (let (pbox, pc) = get_bbox_value (sliderPaddingBBox s);
          s0 = s\<lparr>sliderPaddingBBox := pc\<rparr>
      in if isPointWithinBBox pbox clientX clientY
         then
           (let (bbox, cb) = get_bbox_value (containerBBox s0);
                progress = sub clientX (left bbox)
            in onChange
                 (s0\<lparr>containerBBox := cb,
                    ghostSliderValue :=
                      Some (clamp (divide_n progress (width bbox)) (Fin 0) (Fin 1))\<rparr>))
         else onChange (s0\<lparr>ghostSliderValue := None\<rparr>))"

text \<open>
  The constructor: the fields as it sets them, the two caches of \<open>#createElements\<close>,
  then \<open>this.range(0, 100, 1)\<close>. Its arguments are the layout of the container and of
  the padding element. \<open>#range\<close> has no value before that call, which writes the field
  before anything reads it; the record holds NaN there until then.
\<close>

definition slider_constructor :: "DOMRect \<Rightarrow> DOMRect \<Rightarrow> slider \<times> slider_event list" where
  "slider_constructor container sliderPadding =
     range_op
       \<lparr>containerBBox = CachedBBox_constructor container,
        sliderPaddingBBox = CachedBBox_constructor sliderPadding,
        sliding = False,
        sliderProgress_width = Some (Fin 0),
        sliderPointer_left = None,
        ghostSlider_width = None,
        ghostSlider_display = None,
        ghostSliderValue = None,
        range_fld = \<lparr>min_r = NaN, max_r = NaN, step = NaN\<rparr>,
        rawValue = Fin 0,
        lastChange = None\<rparr>
       (Fin 0) (Fin 100) (Fin 1)"

text \<open>
  Everything that can happen to a slider after its construction: a call of its public
  interface, an event on one of the elements it listens to, a signal of one of the three
  resize observers (the one of the container's cache; the one of the padding's cache
  together with the slider's own, both on the padding element, in the order of their
  creation), or a new layout of the page. An exception thrown by an event listener is
  reported by the browser and the slider stays as it was: \<open>movePointer\<close> throws before
  its first write.
\<close>

datatype input =
    CallRange number number number
  | SetRawValue number
  | SetValue number
  | DragStart
  | DragEnd
  | PointerMove pointer_event
  | Click pointer_event
  | Hover number number
  | ContainerResized
  | PaddingResized
  | Layout DOMRect DOMRect

definition listener :: "slider \<Rightarrow> js_error + slider \<times> slider_event list \<Rightarrow> slider \<times> slider_event list" where
  "listener s r = (case r of Inl err \<Rightarrow> (s, []) | Inr p \<Rightarrow> p)"

fun step_input :: "input \<Rightarrow> slider \<Rightarrow> slider \<times> slider_event list" where
  "step_input (CallRange mn mx st) s = range_op s mn mx st"
| "step_input (SetRawValue x) s = set_rawValue s x"
| "step_input (SetValue v) s = set_value s v"
| "step_input DragStart s = (onDrag s, [])"
| "step_input DragEnd s = (onDragEnd s, [])"
| "step_input (PointerMove e) s = listener s (onMove e s)"
| "step_input (Click e) s = listener s (onClick e s)"
| "step_input (Hover x y) s = changeGhostSlider x y s"
| "step_input ContainerResized s =
     (s\<lparr>containerBBox := resizeObserver_callback (containerBBox s)\<rparr>, [])"
| "step_input PaddingResized s =
     onResize (s\<lparr>sliderPaddingBBox := resizeObserver_callback (sliderPaddingBBox s)\<rparr>)"
| "step_input (Layout c p) s =
     (s\<lparr>containerBBox := relayout c (containerBBox s),
        sliderPaddingBBox := relayout p (sliderPaddingBBox s)\<rparr>, [])"

fun run :: "input list \<Rightarrow> slider \<Rightarrow> slider \<times> slider_event list" where
  "run [] s = (s, [])"
| "run (i # rest) s =
     (let (s1, evs1) = step_input i s;
          (s2, evs2) = run rest s1
      in (s2, evs1 @ evs2))"

text \<open>The pairs \<open>(value, ghostValue)\<close> of the \<open>change\<close> events in a list of events.\<close>

fun change_pairs :: "slider_event list \<Rightarrow> (number \<times> number option) list" where
  "change_pairs [] = []"
| "change_pairs (Change v g vc gc # evs) = (v, g) # change_pairs evs"
| "change_pairs (_ # evs) = change_pairs evs"

text \<open>Two pairs are the same to \<open>#onChange\<close> when both fields are \<open>===\<close>.\<close>

definition same_pair :: "number \<times> number option \<Rightarrow> number \<times> number option \<Rightarrow> bool" where
  "same_pair p q = (strict_eq (fst p) (fst q) \<and> strict_eq_opt (snd p) (snd q))"

fun no_repeat :: "(number \<times> number option) list \<Rightarrow> bool" where
  "no_repeat (p # q # rest) = (\<not> same_pair p q \<and> no_repeat (q # rest))"
| "no_repeat _ = True"

text \<open>
  The test at the head of \<open>#onChange\<close>: there is a last notification and the pair
  \<open>(value, ghostValue)\<close> of the slider is the same as its pair.
\<close>

definition notified :: "slider \<Rightarrow> bool" where
  "notified s =
     (case lastChange s of
        None \<Rightarrow> False
      | Some lc \<Rightarrow> same_pair lc (get_value s, get_ghostValue s))"

definition last_opt :: "'a list \<Rightarrow> 'a option" where
  "last_opt xs = (if xs = [] then None else Some (last xs))"

text \<open>
  What one operation may do to the record of the last notification: it dispatches no
  \<open>change\<close> and leaves the record, or it dispatches one \<open>change\<close>, records its pair, and
  that pair is not the same as the one recorded before.
\<close>

definition dedup_step :: "slider \<Rightarrow> slider \<times> slider_event list \<Rightarrow> bool" where
  "dedup_step s r =
     (change_pairs (snd r) = [] \<and> lastChange (fst r) = lastChange s
      \<or> (\<exists>p. change_pairs (snd r) = [p] \<and> lastChange (fst r) = Some p
              \<and> (\<forall>lc. lastChange s = Some lc \<longrightarrow> \<not> same_pair lc p)))"

text \<open>A number that lies in \<open>[0, 1]\<close>.\<close>

definition in_unit :: "number \<Rightarrow> bool" where
  "in_unit r = (le (Fin 0) r \<and> le r (Fin 1))"

definition unit_or_NaN :: "number \<Rightarrow> bool" where
  "unit_or_NaN r = (r = NaN \<or> in_unit r)"

text \<open>
  Two sliders to evaluate the code on. An element that is not in the document, or not
  displayed, has the box of zeros; \<open>detached_slider\<close> is a slider constructed on such a
  container. \<open>track_slider\<close> is constructed on a track of width 200 at \<open>x = 10\<close>, with a
  padding element that is 5 pixels wider on every side.
\<close>

definition detached_box :: DOMRect where
  "detached_box =
     \<lparr>left = Fin 0, top_r = Fin 0, right = Fin 0, bottom = Fin 0,
      width = Fin 0, height = Fin 0\<rparr>"

definition detached_slider :: slider where
  "detached_slider = fst (slider_constructor detached_box detached_box)"

definition track_box :: DOMRect where
  "track_box =
     \<lparr>left = Fin 10, top_r = Fin 20, right = Fin 210, bottom = Fin 30,
      width = Fin 200, height = Fin 10\<rparr>"

definition padding_box :: DOMRect where
  "padding_box =
     \<lparr>left = Fin 5, top_r = Fin 15, right = Fin 215, bottom = Fin 35,
      width = Fin 210, height = Fin 20\<rparr>"

definition track_slider :: slider where
  "track_slider = fst (slider_constructor track_box padding_box)"

text \<open>
  The time slider of the player is given the range \<open>(0, video.duration, 1 / 60)\<close>, and
  the duration of a stream without an end is \<open>Infinity\<close>.
\<close>

definition live_slider :: slider where
  "live_slider = fst (range_op track_slider (Fin 0) PInf (Fin (1 / 60)))"

section \<open>Binary64 arithmetic\<close>

text \<open>
  \<open>fl64 x\<close> is the binary64 number nearest to the real number \<open>x\<close>: the significand has
  53 bits, a tie goes to the even significand, numbers below \<open>2^-1022\<close> are multiples of
  \<open>2^-1074\<close>, and a result of magnitude \<open>2^1024\<close> or more is an infinity. \<open>binade n a 1\<close>
  is the power of two \<open>p\<close> with \<open>p <= a < 2 * p\<close>, kept between \<open>2^-1022\<close> and \<open>2^1024\<close>; it
  is found in at most 1024 steps from 1. An operator of JavaScript returns the exact
  result rounded.
\<close>

definition round_half_even :: "real \<Rightarrow> int" where
  "round_half_even y =
     (let f = \<lfloor>y\<rfloor>; d = y - of_int f
      in if d < 1 / 2 then f else if 1 / 2 < d then f + 1 else if even f then f else f + 1)"

primrec binade :: "nat \<Rightarrow> real \<Rightarrow> real \<Rightarrow> real" where
  "binade 0 a p = p"
| "binade (Suc n) a p =
     (if 2 * p \<le> a \<and> p < 2 ^ 1024 then binade n a (2 * p)
      else if a < p \<and> 1 / 2 ^ 1022 < p then binade n a (p / 2)
      else p)"

definition fl64 :: "real \<Rightarrow> number" where
  "fl64 x =
     (if x = 0 then Fin 0
      else
        (let a = \<bar>x\<bar>;
             p = binade 1100 a 1;
             u = p / 2 ^ 52;
             r = of_int (round_half_even (a / u)) * u
         in if 2 ^ 1024 \<le> r then (if 0 < x then PInf else NInf)
            else Fin (if 0 < x then r else - r)))"

fun rnd64 :: "number \<Rightarrow> number" where
  "rnd64 (Fin x) = fl64 x"
| "rnd64 v = v"

definition add64 :: "number \<Rightarrow> number \<Rightarrow> number" where
  "add64 a b = rnd64 (add a b)"

definition sub64 :: "number \<Rightarrow> number \<Rightarrow> number" where
  "sub64 a b = rnd64 (sub a b)"

definition mul64 :: "number \<Rightarrow> number \<Rightarrow> number" where
  "mul64 a b = rnd64 (mul a b)"

definition div64 :: "number \<Rightarrow> number \<Rightarrow> number" where
  "div64 a b = rnd64 (divide_n a b)"

text \<open>
  The methods of the slider that derive the value and the ones that call them, with the
  operators of JavaScript rounded: the same text as \<open>adjustValue\<close>, \<open>get_value\<close>,
  \<open>get_ghostValue\<close>, \<open>resizeElements\<close>, \<open>onChange\<close>, \<open>range_op\<close>, \<open>set_rawValue\<close> and
  \<open>set_value\<close> above, with \<open>add64\<close>, \<open>sub64\<close>, \<open>mul64\<close> and \<open>div64\<close>. \<open>Math.round\<close> of a
  binary64 number is an integer that binary64 holds, so it is not rounded again.
\<close>

definition adjustValue64 :: "slider \<Rightarrow> number \<Rightarrow> number" where
  "adjustValue64 s v =
     (let multiplier = div64 (Fin 1) (step (range_fld s));
          v1 = div64 (Math_round (mul64 v multiplier)) multiplier;
          v2 = clamp v1 (min_r (range_fld s)) (max_r (range_fld s))
      in v2)"

definition get_value64 :: "slider \<Rightarrow> number" where
  "get_value64 s =
     adjustValue64 s
       (add64 (min_r (range_fld s))
          (mul64 (rawValue s) (sub64 (max_r (range_fld s)) (min_r (range_fld s)))))"

definition get_ghostValue64 :: "slider \<Rightarrow> number option" where
  "get_ghostValue64 s =
     (case ghostSliderValue s of
        None \<Rightarrow> None
      | Some g \<Rightarrow>
          Some (adjustValue64 s
            (add64 (min_r (range_fld s))
               (mul64 g (sub64 (max_r (range_fld s)) (min_r (range_fld s)))))))"

definition resizeElements64 :: "slider \<Rightarrow> slider" where
  "resizeElements64 s =
     (let (bbox, cb) = get_bbox_value (containerBBox s);
          valueSize = clamp (mul64 (rawValue s) (width bbox)) (Fin 0) (width bbox)
      in (case ghostSliderValue s of
            None \<Rightarrow>
              s\<lparr>containerBBox := cb,
                sliderProgress_width := Some valueSize,
                sliderPointer_left := Some valueSize,
                ghostSlider_width := None,
                ghostSlider_display := Some ''none''\<rparr>
          | Some g \<Rightarrow>
              s\<lparr>containerBBox := cb,
                sliderProgress_width := Some valueSize,
                sliderPointer_left := Some valueSize,
                ghostSlider_width := Some (clamp (mul64 g (width bbox)) (Fin 0) (width bbox)),
                ghostSlider_display := None\<rparr>))"

definition onChange64 :: "slider \<Rightarrow> slider \<times> slider_event list" where
  "onChange64 s =
     (let s1 = resizeElements64 s;
          val = get_value64 s1;
          ghostVal = get_ghostValue64 s1
      in if (case lastChange s1 of
               None \<Rightarrow> False
             | Some lc \<Rightarrow> strict_eq (fst lc) val \<and> strict_eq_opt (snd lc) ghostVal)
         then (s1, [])
         else
           (let valueHasChanged =
                  (case lastChange s1 of None \<Rightarrow> True | Some lc \<Rightarrow> \<not> strict_eq (fst lc) val);
                ghostValueHasChanged =
                  (case lastChange s1 of
                     None \<Rightarrow> True
                   | Some lc \<Rightarrow> \<not> strict_eq_opt (snd lc) ghostVal)
            in (s1\<lparr>lastChange := Some (val, ghostVal)\<rparr>,
                [Change val ghostVal valueHasChanged ghostValueHasChanged])))"

definition range_op64 :: "slider \<Rightarrow> number \<Rightarrow> number \<Rightarrow> number \<Rightarrow> slider \<times> slider_event list" where
  "range_op64 s mn mx st =
     (let s1 = s\<lparr>range_fld := \<lparr>min_r = mn, max_r = mx, step = st\<rparr>\<rparr>;
          r = getRange s1;
          (s2, evs) = onChange64 s1
      in (s2, RangeEvent r # evs))"

definition set_rawValue64 :: "slider \<Rightarrow> number \<Rightarrow> slider \<times> slider_event list" where
  "set_rawValue64 s newRawValue = onChange64 (s\<lparr>rawValue := clamp newRawValue (Fin 0) (Fin 1)\<rparr>)"

definition set_value64 :: "slider \<Rightarrow> number \<Rightarrow> slider \<times> slider_event list" where
  "set_value64 s newValue =
     (let nv = adjustValue64 s newValue
      in onChange64
           (s\<lparr>rawValue :=
                div64 (sub64 nv (min_r (range_fld s)))
                  (sub64 (max_r (range_fld s)) (min_r (range_fld s)))\<rparr>))"

text \<open>
  The formula that the specification gives for the value,
  \<open>clamp(round(x / step) * step, min, max)\<close>, with the rounded operators and with the exact
  ones.
\<close>

definition spec_quantize64 :: "slider_range \<Rightarrow> number \<Rightarrow> number" where
  "spec_quantize64 r x =
     clamp (mul64 (Math_round (div64 x (step r))) (step r)) (min_r r) (max_r r)"

definition spec_quantize :: "slider_range \<Rightarrow> number \<Rightarrow> number" where
  "spec_quantize r x =
     clamp (mul (Math_round (divide_n x (step r))) (step r)) (min_r r) (max_r r)"

text \<open>A slider at the raw position 0.25 with the range \<open>(0, 98, 49)\<close>.\<close>

definition tie_slider :: slider where
  "tie_slider =
     fst (set_rawValue64 (fst (range_op64 detached_slider (Fin 0) (Fin 98) (Fin 49))) (Fin (1 / 4)))"

section \<open>Properties of clamp\<close>

text \<open>On the numbers other than NaN, \<open><=\<close> is a total order.\<close>

lemma le_refl_n: "a \<noteq> NaN \<Longrightarrow> le a a"
  by (cases a) simp_all

lemma le_trans_n: "le a b \<Longrightarrow> le b c \<Longrightarrow> le a c"
  by (cases a; cases b; cases c) simp_all

lemma le_total_n: "a \<noteq> NaN \<Longrightarrow> b \<noteq> NaN \<Longrightarrow> le a b \<or> le b a"
  by (cases a; cases b) auto

lemma le_antisym_n: "le a b \<Longrightarrow> le b a \<Longrightarrow> a = b"
  by (cases a; cases b) simp_all

text \<open>
  C10. Clamp idempotence: for every \<open>x\<close>, \<open>lo\<close> and \<open>hi\<close>, clamping the clamped number
  again with the same boundaries gives the clamped number, where \<open>clamp x lo hi\<close> is
  \<open>Math.max(lo, Math.min(x, hi))\<close>. The two sides are the same number, NaN exactly when
  an argument is NaN.
\<close>

theorem clamp_idempotent:
  "clamp (clamp x lo hi) lo hi = clamp x lo hi"
proof (cases "x = NaN \<or> lo = NaN \<or> hi = NaN")
  case True
  then show ?thesis
    by (auto simp: clamp_def Math_max_def Math_min_def)
next
  case False
  then have nn: "x \<noteq> NaN" "lo \<noteq> NaN" "hi \<noteq> NaN"
    by simp_all
  show ?thesis
    using nn le_total_n [of x hi] le_total_n [of lo hi] le_total_n [of lo x]
      le_trans_n [of lo x hi] le_trans_n [of hi lo x] le_trans_n [of x hi lo]
      le_antisym_n [of lo hi] le_refl_n [of lo] le_refl_n [of hi]
    by (auto simp: clamp_def Math_max_def Math_min_def)
qed


section \<open>The change notification\<close>

text \<open>
  \<open>#resizeElements\<close> and \<open>#onChange\<close> write the styles, the cache of the container and the
  record of the last notification, and nothing that the value or the ghost value is
  derived from.
\<close>

lemma resizeElements_fields [simp]:
  "rawValue (resizeElements s) = rawValue s"
  "range_fld (resizeElements s) = range_fld s"
  "ghostSliderValue (resizeElements s) = ghostSliderValue s"
  "lastChange (resizeElements s) = lastChange s"
  "sliding (resizeElements s) = sliding s"
  "sliderPaddingBBox (resizeElements s) = sliderPaddingBBox s"
  "containerBBox (resizeElements s) = snd (get_bbox_value (containerBBox s))"
  by (simp_all add: resizeElements_def Let_def split_def split: option.splits)

lemma adjustValue_cong: "range_fld s = range_fld t \<Longrightarrow> adjustValue s v = adjustValue t v"
  by (simp add: adjustValue_def)

lemma get_value_cong:
  "range_fld s = range_fld t \<Longrightarrow> rawValue s = rawValue t \<Longrightarrow> get_value s = get_value t"
  by (simp add: get_value_def adjustValue_def)

lemma get_ghostValue_cong:
  "range_fld s = range_fld t \<Longrightarrow> ghostSliderValue s = ghostSliderValue t
   \<Longrightarrow> get_ghostValue s = get_ghostValue t"
  by (simp add: get_ghostValue_def adjustValue_def split: option.splits)

lemma get_value_resizeElements [simp]: "get_value (resizeElements s) = get_value s"
  by (rule get_value_cong) simp_all

lemma get_ghostValue_resizeElements [simp]: "get_ghostValue (resizeElements s) = get_ghostValue s"
  by (rule get_ghostValue_cong) simp_all

lemma onChange_events:
  "snd (onChange s) =
     (if notified s then []
      else [Change (get_value s) (get_ghostValue s)
              (case lastChange s of None \<Rightarrow> True | Some lc \<Rightarrow> \<not> strict_eq (fst lc) (get_value s))
              (case lastChange s of None \<Rightarrow> True
               | Some lc \<Rightarrow> \<not> strict_eq_opt (snd lc) (get_ghostValue s))])"
  by (simp add: onChange_def notified_def same_pair_def Let_def split: option.splits)

lemma onChange_fields [simp]:
  "rawValue (fst (onChange s)) = rawValue s"
  "range_fld (fst (onChange s)) = range_fld s"
  "ghostSliderValue (fst (onChange s)) = ghostSliderValue s"
  "sliding (fst (onChange s)) = sliding s"
  "sliderPaddingBBox (fst (onChange s)) = sliderPaddingBBox s"
  "containerBBox (fst (onChange s)) = snd (get_bbox_value (containerBBox s))"
  by (simp_all add: onChange_def Let_def)

lemma onChange_lastChange:
  "lastChange (fst (onChange s)) =
     (if notified s then lastChange s else Some (get_value s, get_ghostValue s))"
  by (auto simp: onChange_def notified_def same_pair_def Let_def split: option.splits)

lemma get_value_onChange [simp]: "get_value (fst (onChange s)) = get_value s"
  by (rule get_value_cong) simp_all

lemma get_ghostValue_onChange [simp]: "get_ghostValue (fst (onChange s)) = get_ghostValue s"
  by (rule get_ghostValue_cong) simp_all

text \<open>
  After \<open>#onChange\<close> the record of the last notification is the pair of the slider, whether
  an event was dispatched or not. Every input is a \<open>dedup_step\<close>, and a run of inputs keeps
  the record equal to the pair of the last \<open>change\<close> event.
\<close>

lemma same_pair_eq: "same_pair p q \<Longrightarrow> p = q"
  by (cases p; cases q; cases "snd p"; cases "snd q") (auto simp: same_pair_def strict_eq_def)

lemma lastChange_after_onChange:
  "lastChange (fst (onChange s)) = Some (get_value s, get_ghostValue s)"
  using same_pair_eq [of _ "(get_value s, get_ghostValue s)"]
  by (auto simp: onChange_lastChange notified_def split: option.splits)

lemma onChange_dedup_step:
  assumes "lastChange t = lastChange s"
  shows "dedup_step s (onChange t)"
proof (cases "notified t")
  case True
  then show ?thesis
    using assms by (simp add: dedup_step_def onChange_events onChange_lastChange)
next
  case False
  then have "\<forall>lc. lastChange s = Some lc \<longrightarrow> \<not> same_pair lc (get_value t, get_ghostValue t)"
    using assms by (auto simp: notified_def split: option.splits)
  with False show ?thesis
    by (auto simp: dedup_step_def onChange_events onChange_lastChange)
qed

lemma dedup_step_idle: "lastChange t = lastChange s \<Longrightarrow> dedup_step s (t, [])"
  by (simp add: dedup_step_def)

lemma range_op_alt:
  "range_op s mn mx st =
     (fst (onChange (s\<lparr>range_fld := \<lparr>min_r = mn, max_r = mx, step = st\<rparr>\<rparr>)),
      RangeEvent \<lparr>min_r = mn, max_r = mx, step = st\<rparr>
        # snd (onChange (s\<lparr>range_fld := \<lparr>min_r = mn, max_r = mx, step = st\<rparr>\<rparr>)))"
  by (simp add: range_op_def getRange_def Let_def split_def)

lemma range_op_dedup_step: "dedup_step s (range_op s mn mx st)"
  using onChange_dedup_step [of "s\<lparr>range_fld := \<lparr>min_r = mn, max_r = mx, step = st\<rparr>\<rparr>" s]
  by (simp add: range_op_alt dedup_step_def)

lemma movePointer_dedup_step: "movePointer e s = Inr r \<Longrightarrow> dedup_step s r"
  by (auto simp: movePointer_def Let_def split_def split: sum.splits intro!: onChange_dedup_step)

lemma step_input_dedup_step: "dedup_step s (step_input i s)"
proof (cases i)
  case (CallRange mn mx st)
  then show ?thesis by (simp add: range_op_dedup_step)
next
  case (SetRawValue x)
  then show ?thesis by (simp add: set_rawValue_def onChange_dedup_step)
next
  case (SetValue v)
  then show ?thesis by (simp add: set_value_def Let_def onChange_dedup_step)
next
  case DragStart
  then show ?thesis by (simp add: onDrag_def dedup_step_idle)
next
  case DragEnd
  then show ?thesis by (simp add: onDragEnd_def dedup_step_idle)
next
  case (PointerMove e)
  then show ?thesis
    by (auto simp: listener_def onMove_def dedup_step_idle movePointer_dedup_step split: sum.splits)
next
  case (Click e)
  then show ?thesis
    by (auto simp: listener_def onClick_def dedup_step_idle movePointer_dedup_step split: sum.splits)
next
  case (Hover x y)
  then show ?thesis
    by (auto simp: changeGhostSlider_def Let_def split_def intro!: onChange_dedup_step)
next
  case ContainerResized
  then show ?thesis by (simp add: dedup_step_idle)
next
  case PaddingResized
  then show ?thesis by (simp add: onResize_def dedup_step_def)
next
  case (Layout c p)
  then show ?thesis by (simp add: dedup_step_idle)
qed

lemma change_pairs_append: "change_pairs (xs @ ys) = change_pairs xs @ change_pairs ys"
  by (induction xs rule: change_pairs.induct) simp_all

lemma no_repeat_snoc:
  "no_repeat (ps @ [p]) = (no_repeat ps \<and> (\<forall>q. last_opt ps = Some q \<longrightarrow> \<not> same_pair q p))"
  by (induction ps rule: no_repeat.induct) (auto simp: last_opt_def)

lemma last_opt_snoc: "last_opt (ps @ [p]) = Some p"
  by (simp add: last_opt_def)

lemma run_no_repeat:
  "no_repeat prev \<Longrightarrow> lastChange s = last_opt prev
   \<Longrightarrow> no_repeat (prev @ change_pairs (snd (run inputs s)))
       \<and> lastChange (fst (run inputs s)) = last_opt (prev @ change_pairs (snd (run inputs s)))"
proof (induction inputs arbitrary: s prev)
  case Nil
  then show ?case by simp
next
  case (Cons i rest)
  obtain s1 evs1 where st: "step_input i s = (s1, evs1)"
    by (cases "step_input i s")
  have ds: "dedup_step s (s1, evs1)"
    using step_input_dedup_step [of s i] st by simp
  have "no_repeat (prev @ change_pairs evs1) \<and> lastChange s1 = last_opt (prev @ change_pairs evs1)"
    using ds Cons.prems
    by (auto simp: dedup_step_def no_repeat_snoc last_opt_snoc)
  then have "no_repeat ((prev @ change_pairs evs1) @ change_pairs (snd (run rest s1)))
       \<and> lastChange (fst (run rest s1))
           = last_opt ((prev @ change_pairs evs1) @ change_pairs (snd (run rest s1)))"
    using Cons.IH [of "prev @ change_pairs evs1" s1] by blast
  then show ?case
    using st by (simp add: split_def Let_def change_pairs_append)
qed

text \<open>
  The notification is deduplicated with \<open>===\<close>. From the construction on, whatever
  happens to the slider, no \<open>change\<close> event carries a pair that is \<open>===\<close> to the pair of
  the \<open>change\<close> event before it. Setting the same value twice dispatches at most one
  \<open>change\<close>, provided that the value and the ghost value that the first call leaves are
  not NaN.
\<close>

lemma change_dedup_strict:
  "no_repeat (change_pairs (snd (slider_constructor c p)
      @ snd (run inputs (fst (slider_constructor c p)))))
   \<and> (get_value (fst (set_value s v)) \<noteq> NaN
        \<and> get_ghostValue (fst (set_value s v)) \<noteq> Some NaN
      \<longrightarrow> change_pairs (snd (set_value (fst (set_value s v)) v)) = []
          \<and> length (change_pairs (snd (set_value s v)
                @ snd (set_value (fst (set_value s v)) v))) \<le> 1)"
proof
  let ?init = "\<lparr>containerBBox = CachedBBox_constructor c,
        sliderPaddingBBox = CachedBBox_constructor p,
        sliding = False,
        sliderProgress_width = Some (Fin 0),
        sliderPointer_left = None,
        ghostSlider_width = None,
        ghostSlider_display = None,
        ghostSliderValue = None,
        range_fld = \<lparr>min_r = NaN, max_r = NaN, step = NaN\<rparr>,
        rawValue = Fin 0,
        lastChange = None\<rparr>"
  let ?k = "slider_constructor c p"
  have "dedup_step ?init ?k"
    unfolding slider_constructor_def by (rule range_op_dedup_step)
  then have "no_repeat (change_pairs (snd ?k)) \<and> lastChange (fst ?k) = last_opt (change_pairs (snd ?k))"
    by (auto simp: dedup_step_def last_opt_def)
  then show "no_repeat (change_pairs (snd ?k @ snd (run inputs (fst ?k))))"
    using run_no_repeat [of "change_pairs (snd ?k)" "fst ?k" inputs]
    by (simp add: change_pairs_append)
next
  let ?s1 = "fst (set_value s v)"
  let ?t = "s\<lparr>rawValue := divide_n (sub (adjustValue s v) (min_r (range_fld s)))
                  (sub (max_r (range_fld s)) (min_r (range_fld s)))\<rparr>"
  have s1: "?s1 = fst (onChange ?t)"
    by (simp add: set_value_def Let_def)
  have adj: "adjustValue ?s1 v = adjustValue s v"
    by (rule adjustValue_cong) (simp add: s1)
  have same: "?s1\<lparr>rawValue := divide_n (sub (adjustValue ?s1 v) (min_r (range_fld ?s1)))
                  (sub (max_r (range_fld ?s1)) (min_r (range_fld ?s1)))\<rparr> = ?s1"
    unfolding adj by (simp add: s1)
  have second: "set_value ?s1 v = onChange ?s1"
    using same by (simp add: set_value_def Let_def)
  have lc: "lastChange ?s1 = Some (get_value ?s1, get_ghostValue ?s1)"
    by (simp add: s1 lastChange_after_onChange)
  have len1: "length (change_pairs (snd (set_value s v))) \<le> 1"
    by (simp add: set_value_def Let_def onChange_events)
  show "get_value ?s1 \<noteq> NaN \<and> get_ghostValue ?s1 \<noteq> Some NaN
      \<longrightarrow> change_pairs (snd (set_value ?s1 v)) = []
          \<and> length (change_pairs (snd (set_value s v) @ snd (set_value ?s1 v))) \<le> 1"
  proof
    assume nn: "get_value ?s1 \<noteq> NaN \<and> get_ghostValue ?s1 \<noteq> Some NaN"
    then have "notified ?s1"
      by (cases "get_ghostValue ?s1") (auto simp: notified_def lc same_pair_def strict_eq_def)
    then have "change_pairs (snd (set_value ?s1 v)) = []"
      by (simp add: second onChange_events)
    then show "change_pairs (snd (set_value ?s1 v)) = []
          \<and> length (change_pairs (snd (set_value s v) @ snd (set_value ?s1 v))) \<le> 1"
      using len1 by (simp add: change_pairs_append)
  qed
qed

text \<open>Equations to evaluate the operations on a given slider.\<close>

lemma set_value_alt:
  "set_value s v = onChange (s\<lparr>rawValue := divide_n (sub (adjustValue s v) (min_r (range_fld s)))
                  (sub (max_r (range_fld s)) (min_r (range_fld s)))\<rparr>)"
  by (simp add: set_value_def Let_def)

lemmas eval_defs = slider_constructor_def range_op_alt set_value_alt set_rawValue_def
  onChange_events lastChange_after_onChange notified_def same_pair_def strict_eq_def
  get_value_def get_ghostValue_def adjustValue_def clamp_def Math_max_def Math_min_def sub_def

text \<open>
  C1. The slider never dispatches a \<open>change\<close> event whose pair \<open>(value, ghostValue)\<close> equals
  the pair of the \<open>change\<close> event dispatched before it; in particular, two identical
  \<open>value = v\<close> sets in a row dispatch at most one \<open>change\<close> event.

  The code does not keep this once the value is NaN, because \<open>#onChange\<close> compares with
  \<open>===\<close> and NaN is not \<open>===\<close> to itself. With the range \<open>(0, Infinity, 1 / 60)\<close> the value
  is \<open>0 + rawValue * Infinity\<close>, NaN at the raw position 0, and setting a finite \<open>v\<close>
  leaves the raw position at \<open>v / Infinity = 0\<close>. The range change and each of two
  identical sets \<open>value = 5\<close> dispatch a \<open>change\<close> event with the pair \<open>(NaN, null)\<close>.
\<close>

theorem change_repeats_NaN:
  "lt (Fin 0) PInf \<and> lt (Fin 0) (Fin (1 / 60))
   \<and> change_pairs (snd (range_op track_slider (Fin 0) PInf (Fin (1 / 60)))) = [(NaN, None)]
   \<and> change_pairs (snd (set_value live_slider (Fin 5))) = [(NaN, None)]
   \<and> change_pairs (snd (set_value (fst (set_value live_slider (Fin 5))) (Fin 5)))
       = [(NaN, None)]"
  by (simp add: live_slider_def track_slider_def eval_defs)

section \<open>The derived value\<close>

lemma clamp_Fin: "clamp (Fin x) (Fin lo) (Fin hi) = Fin (max lo (min x hi))"
  by (simp add: clamp_def Math_max_def Math_min_def max_def min_def)

text \<open>
  \<open>#adjustValue\<close> divides by \<open>1 / step\<close> what it rounded after multiplying by \<open>1 / step\<close>.
  With exact operations and \<open>step > 0\<close> that is the formula of the specification.
\<close>

lemma quantize_eq:
  "lt (Fin 0) st \<Longrightarrow>
   divide_n (Math_round (mul x (divide_n (Fin 1) st))) (divide_n (Fin 1) st)
     = mul (Math_round (divide_n x st)) st"
  by (cases st; cases x) (auto simp: )

lemma adjustValue_exact:
  "lt (Fin 0) (step (range_fld s)) \<Longrightarrow> adjustValue s x = spec_quantize (range_fld s) x"
  by (simp add: adjustValue_def spec_quantize_def quantize_eq)

lemma adjustValue_NaN [simp]: "adjustValue s NaN = NaN"
  by (simp add: adjustValue_def clamp_def Math_min_def Math_max_def)

lemma clamp_finite_bounds:
  "clamp y (Fin lo) (Fin hi) = NaN
   \<or> (\<exists>z. clamp y (Fin lo) (Fin hi) = Fin z \<and> (lo \<le> hi \<longrightarrow> lo \<le> z \<and> z \<le> hi))"
  by (cases y) (auto simp: clamp_def Math_min_def Math_max_def)

lemma adjustValue_finite_range:
  assumes "range_fld s = \<lparr>min_r = Fin mn, max_r = Fin mx, step = st\<rparr>"
  shows "adjustValue s v = NaN
   \<or> (\<exists>z. adjustValue s v = Fin z \<and> (mn \<le> mx \<longrightarrow> mn \<le> z \<and> z \<le> mx))"
  using clamp_finite_bounds [of _ mn mx] assms
  by (simp add: adjustValue_def Let_def)

lemma set_value_fields:
  "range_fld (fst (set_value s v)) = range_fld s"
  "rawValue (fst (set_value s v))
     = divide_n (sub (adjustValue s v) (min_r (range_fld s)))
         (sub (max_r (range_fld s)) (min_r (range_fld s)))"
  by (simp_all add: set_value_alt)

text \<open>
  The rounding of given numbers: the binade and the significand are evaluated one after
  the other.
\<close>

lemma binade_numeral:
  "binade (numeral k) a p =
     (if 2 * p \<le> a \<and> p < 2 ^ 1024 then binade (pred_numeral k) a (2 * p)
      else if a < p \<and> 1 / 2 ^ 1022 < p then binade (pred_numeral k) a (p / 2)
      else p)"
  by (simp add: numeral_eq_Suc)

lemma fl64_posI:
  assumes "0 < x" and "binade 1100 x 1 = p"
    and "round_half_even (x / (p / 2 ^ 52)) = k"
    and "of_int k * (p / 2 ^ 52) < 2 ^ 1024"
    and "y = of_int k * (p / 2 ^ 52)"
  shows "fl64 x = Fin y"
  using assms unfolding fl64_def Let_def by (simp del: power_numeral)

lemma fl64_0 [simp]: "fl64 0 = Fin 0"
  by (simp add: fl64_def)

lemmas b64 = binade_numeral round_half_even_def Let_def

lemma fl64_1: "fl64 (1) = Fin (1)"
  by (rule fl64_posI [of "1" "1" "4503599627370496"]) (simp_all add: b64)

lemma fl64_5: "fl64 (5) = Fin (5)"
  by (rule fl64_posI [of "5" "4" "5629499534213120"]) (simp_all add: b64)

lemma fl64_8: "fl64 (8) = Fin (8)"
  by (rule fl64_posI [of "8" "8" "4503599627370496"]) (simp_all add: b64)

lemma fl64_9: "fl64 (9) = Fin (9)"
  by (rule fl64_posI [of "9" "8" "5066549580791808"]) (simp_all add: b64)

lemma fl64_10: "fl64 (10) = Fin (10)"
  by (rule fl64_posI [of "10" "8" "5629499534213120"]) (simp_all add: b64)

lemma fl64_12: "fl64 (12) = Fin (12)"
  by (rule fl64_posI [of "12" "8" "6755399441055744"]) (simp_all add: b64)

lemma fl64_20: "fl64 (20) = Fin (20)"
  by (rule fl64_posI [of "20" "16" "5629499534213120"]) (simp_all add: b64)

lemma fl64_49: "fl64 (49) = Fin (49)"
  by (rule fl64_posI [of "49" "32" "6896136929411072"]) (simp_all add: b64)

lemma fl64_50: "fl64 (50) = Fin (50)"
  by (rule fl64_posI [of "50" "32" "7036874417766400"]) (simp_all add: b64)

lemma fl64_98: "fl64 (98) = Fin (98)"
  by (rule fl64_posI [of "98" "64" "6896136929411072"]) (simp_all add: b64)

lemma fl64_100: "fl64 (100) = Fin (100)"
  by (rule fl64_posI [of "100" "64" "7036874417766400"]) (simp_all add: b64)

lemma fl64_half: "fl64 (1 / 2) = Fin (1 / 2)"
  by (rule fl64_posI [of "1 / 2" "1 / 2" "4503599627370496"]) (simp_all add: b64)

lemma fl64_quarter: "fl64 (1 / 4) = Fin (1 / 4)"
  by (rule fl64_posI [of "1 / 4" "1 / 4" "4503599627370496"]) (simp_all add: b64)

lemma fl64_9_4: "fl64 (9 / 4) = Fin (9 / 4)"
  by (rule fl64_posI [of "9 / 4" "2" "5066549580791808"]) (simp_all add: b64)

lemma fl64_11_4: "fl64 (11 / 4) = Fin (11 / 4)"
  by (rule fl64_posI [of "11 / 4" "2" "6192449487634432"]) (simp_all add: b64)

lemma fl64_49_2: "fl64 (49 / 2) = Fin (49 / 2)"
  by (rule fl64_posI [of "49 / 2" "16" "6896136929411072"]) (simp_all add: b64)

lemma fl64_reciprocal_49: "fl64 (1 / 49) = Fin (5882252574524729 / 288230376151711744)"
  by (rule fl64_posI [of "1 / 49" "1 / 64" "5882252574524729"]) (simp_all add: b64)

lemma fl64_0_05: "fl64 (1 / 20) = Fin (3602879701896397 / 72057594037927936)"
  by (rule fl64_posI [of "1 / 20" "1 / 32" "7205759403792794"]) (simp_all add: b64)

lemma fl64_0_52: "fl64 (13 / 25) = Fin (1170935903116329 / 2251799813685248)"
  by (rule fl64_posI [of "13 / 25" "1 / 2" "4683743612465316"]) (simp_all add: b64)

lemma fl64_tie_product: "fl64 (288230376151711721 / 576460752303423488) = Fin (9007199254740991 / 18014398509481984)"
  by (rule fl64_posI [of "288230376151711721 / 576460752303423488" "1 / 4" "9007199254740991"]) (simp_all add: b64)

lemma fl64_reciprocal_0_05: "fl64 (72057594037927936 / 3602879701896397) = Fin (20)"
  by (rule fl64_posI [of "72057594037927936 / 3602879701896397" "16" "5629499534213120"]) (simp_all add: b64)

lemma fl64_0_52_times_20: "fl64 (5854679515581645 / 562949953421312) = Fin (5854679515581645 / 562949953421312)"
  by (rule fl64_posI [of "5854679515581645 / 562949953421312" "8" "5854679515581645"]) (simp_all add: b64)

lemma fl64_980: "fl64 980 = Fin 980"
  by (rule fl64_posI [of "980" "512" "8620171161763840"]) (simp_all add: b64)

lemmas fl64_values = fl64_1 fl64_5 fl64_8 fl64_9 fl64_10 fl64_12 fl64_20 fl64_49 fl64_50
  fl64_98 fl64_100 fl64_half fl64_quarter fl64_9_4 fl64_11_4 fl64_49_2 fl64_reciprocal_49
  fl64_0_05 fl64_0_52 fl64_tie_product fl64_reciprocal_0_05 fl64_0_52_times_20

lemmas ops64 = add64_def sub64_def mul64_def div64_def sub_def

text \<open>
  With the rounded operators as with the exact ones, \<open>#resizeElements\<close> and \<open>#onChange\<close>
  write nothing that the value is derived from.
\<close>

lemma resizeElements64_fields [simp]:
  "rawValue (resizeElements64 s) = rawValue s"
  "range_fld (resizeElements64 s) = range_fld s"
  "ghostSliderValue (resizeElements64 s) = ghostSliderValue s"
  "lastChange (resizeElements64 s) = lastChange s"
  "sliding (resizeElements64 s) = sliding s"
  by (simp_all add: resizeElements64_def Let_def split_def split: option.splits)

lemma adjustValue64_cong: "range_fld s = range_fld t \<Longrightarrow> adjustValue64 s v = adjustValue64 t v"
  by (simp add: adjustValue64_def)

lemma get_value64_cong:
  "range_fld s = range_fld t \<Longrightarrow> rawValue s = rawValue t \<Longrightarrow> get_value64 s = get_value64 t"
  by (simp add: get_value64_def adjustValue64_def)

lemma get_ghostValue64_cong:
  "range_fld s = range_fld t \<Longrightarrow> ghostSliderValue s = ghostSliderValue t
   \<Longrightarrow> get_ghostValue64 s = get_ghostValue64 t"
  by (simp add: get_ghostValue64_def adjustValue64_def split: option.splits)

lemma onChange64_fields [simp]:
  "rawValue (fst (onChange64 s)) = rawValue s"
  "range_fld (fst (onChange64 s)) = range_fld s"
  "ghostSliderValue (fst (onChange64 s)) = ghostSliderValue s"
  "sliding (fst (onChange64 s)) = sliding s"
  by (simp_all add: onChange64_def Let_def)

lemma get_value64_onChange64 [simp]: "get_value64 (fst (onChange64 s)) = get_value64 s"
  by (rule get_value64_cong) simp_all

lemma get_ghostValue64_onChange64 [simp]:
  "get_ghostValue64 (fst (onChange64 s)) = get_ghostValue64 s"
  by (rule get_ghostValue64_cong) simp_all

lemma get_value64_resizeElements64 [simp]: "get_value64 (resizeElements64 s) = get_value64 s"
  by (rule get_value64_cong) simp_all

lemma get_ghostValue64_resizeElements64 [simp]:
  "get_ghostValue64 (resizeElements64 s) = get_ghostValue64 s"
  by (rule get_ghostValue64_cong) simp_all

lemma lastChange_after_onChange64:
  "lastChange (fst (onChange64 s)) = Some (get_value64 s, get_ghostValue64 s)"
  using same_pair_eq [of _ "(get_value64 s, get_ghostValue64 s)"]
  by (auto simp: onChange64_def Let_def same_pair_def split: option.splits)

lemma range_op64_alt:
  "range_op64 s mn mx st =
     (fst (onChange64 (s\<lparr>range_fld := \<lparr>min_r = mn, max_r = mx, step = st\<rparr>\<rparr>)),
      RangeEvent \<lparr>min_r = mn, max_r = mx, step = st\<rparr>
        # snd (onChange64 (s\<lparr>range_fld := \<lparr>min_r = mn, max_r = mx, step = st\<rparr>\<rparr>)))"
  by (simp add: range_op64_def getRange_def Let_def split_def)

lemma set_value64_alt:
  "set_value64 s v =
     onChange64 (s\<lparr>rawValue := div64 (sub64 (adjustValue64 s v) (min_r (range_fld s)))
                  (sub64 (max_r (range_fld s)) (min_r (range_fld s)))\<rparr>)"
  by (simp add: set_value64_def Let_def)

lemma get_value64_formula:
  "get_value64 s =
     clamp (div64 (Math_round (mul64
              (add64 (min_r (range_fld s))
                 (mul64 (rawValue s) (sub64 (max_r (range_fld s)) (min_r (range_fld s)))))
              (div64 (Fin 1) (step (range_fld s)))))
            (div64 (Fin 1) (step (range_fld s))))
       (min_r (range_fld s)) (max_r (range_fld s))"
  by (simp add: get_value64_def adjustValue64_def Let_def)

lemma adjustValue64_finite_range:
  assumes "range_fld s = \<lparr>min_r = Fin mn, max_r = Fin mx, step = st\<rparr>"
  shows "adjustValue64 s v = NaN
   \<or> (\<exists>z. adjustValue64 s v = Fin z \<and> (mn \<le> mx \<longrightarrow> mn \<le> z \<and> z \<le> mx))"
  using clamp_finite_bounds [of _ mn mx] assms
  by (simp add: adjustValue64_def Let_def)

text \<open>
  C2, as the code has it. For every slider whose range has \<open>min < max\<close> and \<open>step > 0\<close>, and
  every raw position \<open>r\<close>, the getter of the value returns
  \<open>clamp(round(x * m) / m, min, max)\<close> with \<open>m = 1 / step\<close> and \<open>x = min + r * (max - min)\<close>,
  every operator rounded to binary64: the quotient by the step is a product with the
  rounded reciprocal of the step. The value is not stored: the getter depends on the range
  and on the raw position only (second part). Under finite bounds it is NaN or lies in
  \<open>[min, max]\<close> (third part).
\<close>

theorem value_derived_binary64:
  assumes "lt (min_r (range_fld s)) (max_r (range_fld s))"
    and "lt (Fin 0) (step (range_fld s))"
  shows "get_value64 s =
           clamp (div64 (Math_round (mul64
                    (add64 (min_r (range_fld s))
                       (mul64 (rawValue s) (sub64 (max_r (range_fld s)) (min_r (range_fld s)))))
                    (div64 (Fin 1) (step (range_fld s)))))
                  (div64 (Fin 1) (step (range_fld s))))
             (min_r (range_fld s)) (max_r (range_fld s))
         \<and> (range_fld t = range_fld s \<and> rawValue t = rawValue s
               \<longrightarrow> get_value64 t = get_value64 s)
         \<and> (min_r (range_fld s) = Fin a \<and> max_r (range_fld s) = Fin b
               \<longrightarrow> get_value64 s = NaN \<or> (\<exists>z. get_value64 s = Fin z \<and> a \<le> z \<and> z \<le> b))"
proof (intro conjI impI)
  show "get_value64 s =
           clamp (div64 (Math_round (mul64
                    (add64 (min_r (range_fld s))
                       (mul64 (rawValue s) (sub64 (max_r (range_fld s)) (min_r (range_fld s)))))
                    (div64 (Fin 1) (step (range_fld s)))))
                  (div64 (Fin 1) (step (range_fld s))))
             (min_r (range_fld s)) (max_r (range_fld s))"
    by (rule get_value64_formula)
next
  assume "range_fld t = range_fld s \<and> rawValue t = rawValue s"
  then show "get_value64 t = get_value64 s"
    by (intro get_value64_cong) simp_all
next
  assume h: "min_r (range_fld s) = Fin a \<and> max_r (range_fld s) = Fin b"
  then have le: "a \<le> b"
    using assms(1) by simp
  have rg: "range_fld s = \<lparr>min_r = Fin a, max_r = Fin b, step = step (range_fld s)\<rparr>"
    using h by (cases "range_fld s") simp
  show "get_value64 s = NaN \<or> (\<exists>z. get_value64 s = Fin z \<and> a \<le> z \<and> z \<le> b)"
    using adjustValue64_finite_range [OF rg] le unfolding get_value64_def by blast
qed

text \<open>The slider of the constructor at the raw position 0.5.\<close>

theorem value_derived_binary64_witness:
  "lt (Fin 0) (Fin 100) \<and> lt (Fin 0) (Fin 1)
   \<and> get_value64 (fst (set_rawValue64 detached_slider (Fin (1 / 2)))) = Fin 50"
proof -
  let ?s = "fst (set_rawValue64 detached_slider (Fin (1 / 2)))"
  have r: "range_fld ?s = \<lparr>min_r = Fin 0, max_r = Fin 100, step = Fin 1\<rparr>"
    by (simp add: detached_slider_def set_rawValue64_def slider_constructor_def range_op_alt)
  have v: "rawValue ?s = Fin (1 / 2)"
    by (simp add: set_rawValue64_def clamp_Fin)
  have h1: "lt (min_r (range_fld ?s)) (max_r (range_fld ?s))"
    and h2: "lt (Fin 0) (step (range_fld ?s))"
    by (simp_all add: r)
  have "get_value64 ?s =
      clamp (div64 (Math_round (mul64
                    (add64 (min_r (range_fld ?s))
                       (mul64 (rawValue ?s) (sub64 (max_r (range_fld ?s)) (min_r (range_fld ?s)))))
                    (div64 (Fin 1) (step (range_fld ?s)))))
                  (div64 (Fin 1) (step (range_fld ?s))))
             (min_r (range_fld ?s)) (max_r (range_fld ?s))"
    using value_derived_binary64 [OF h1 h2] by (rule conjunct1)
  then have "get_value64 ?s = Fin 50"
    by (simp add: r v ops64 fl64_values clamp_Fin)
  then show ?thesis
    by simp
qed

text \<open>
  The claim C2 gives \<open>clamp(round(x / step) * step, min, max)\<close> for the value. At the raw
  position 0.25 with the range \<open>(0, 98, 49)\<close>, \<open>x\<close> is 24.5 and the formula gives
  \<open>round(0.5) * 49 = 49\<close>, with rounded and with exact operators. The code multiplies 24.5 by
  the binary64 number nearest to \<open>1 / 49\<close>, which lies below \<open>1 / 49\<close>; the product rounds to
  the binary64 number just below 0.5, \<open>Math.round\<close> gives 0, and the value is 0.
\<close>

lemma tie_slider_fields:
  "range_fld tie_slider = \<lparr>min_r = Fin 0, max_r = Fin 98, step = Fin 49\<rparr>"
  "rawValue tie_slider = Fin (1 / 4)"
  by (simp_all add: tie_slider_def set_rawValue64_def range_op64_alt clamp_Fin)

theorem value_formula_counterexample:
  "lt (Fin 0) (Fin 98) \<and> lt (Fin 0) (Fin 49)
   \<and> rawValue tie_slider = Fin (1 / 4)
   \<and> get_value64 tie_slider = Fin 0
   \<and> spec_quantize64 (range_fld tie_slider)
        (add64 (Fin 0) (mul64 (Fin (1 / 4)) (sub64 (Fin 98) (Fin 0)))) = Fin 49
   \<and> spec_quantize (range_fld tie_slider)
        (add (Fin 0) (mul (Fin (1 / 4)) (sub (Fin 98) (Fin 0)))) = Fin 49"
proof -
  have x: "add64 (Fin 0) (mul64 (Fin (1 / 4)) (sub64 (Fin 98) (Fin 0))) = Fin (49 / 2)"
    by (simp add: ops64 fl64_values)
  have m: "div64 (Fin 1) (Fin 49) = Fin (5882252574524729 / 288230376151711744)"
    by (simp add: ops64 fl64_values)
  have p: "mul64 (Fin (49 / 2)) (Fin (5882252574524729 / 288230376151711744))
      = Fin (9007199254740991 / 18014398509481984)"
    by (simp add: ops64 fl64_values)
  have r: "Math_round (Fin (9007199254740991 / 18014398509481984)) = Fin 0"
    by simp
  have q: "div64 (Fin 0) (Fin (5882252574524729 / 288230376151711744)) = Fin 0"
    by (simp add: ops64)
  have v: "get_value64 tie_slider = Fin 0"
    by (simp only: get_value64_formula tie_slider_fields slider_range.simps x m p r q)
       (simp add: clamp_Fin)
  have d: "div64 (Fin (49 / 2)) (Fin 49) = Fin (1 / 2)"
    by (simp add: ops64 fl64_values)
  have k: "mul64 (Math_round (Fin (1 / 2))) (Fin 49) = Fin 49"
    by (simp add: ops64 fl64_values)
  have c: "spec_quantize64 (range_fld tie_slider)
        (add64 (Fin 0) (mul64 (Fin (1 / 4)) (sub64 (Fin 98) (Fin 0)))) = Fin 49"
    by (simp only: spec_quantize64_def tie_slider_fields slider_range.simps x d k)
       (simp add: clamp_Fin)
  have e: "spec_quantize (range_fld tie_slider)
        (add (Fin 0) (mul (Fin (1 / 4)) (sub (Fin 98) (Fin 0)))) = Fin 49"
    by (simp add: spec_quantize_def tie_slider_fields sub_def clamp_Fin)
  show ?thesis
    using v c e by (simp add: tie_slider_fields)
qed


section \<open>Setting the range\<close>

text \<open>
  C3, as the code has it. The method \<open>range\<close> checks nothing: for all three numbers, also
  with \<open>min >= max\<close> or \<open>step <= 0\<close>, it installs the range as given, dispatches a \<open>range\<close>
  event that carries it, and then runs the change evaluation \<open>#onChange\<close> on the slider
  with the new range: its result is the slider that the method leaves, and its events
  follow the \<open>range\<close> event. So the raw position stays, and the record of the last
  notification is the pair of the slider under the new range. The method has no path that
  fails. Both readings of the operators are stated.
\<close>

theorem range_installs_any_range:
  "range_op s mn mx st =
     (fst (onChange (s\<lparr>range_fld := \<lparr>min_r = mn, max_r = mx, step = st\<rparr>\<rparr>)),
      RangeEvent \<lparr>min_r = mn, max_r = mx, step = st\<rparr>
        # snd (onChange (s\<lparr>range_fld := \<lparr>min_r = mn, max_r = mx, step = st\<rparr>\<rparr>)))
   \<and> range_op64 s mn mx st =
     (fst (onChange64 (s\<lparr>range_fld := \<lparr>min_r = mn, max_r = mx, step = st\<rparr>\<rparr>)),
      RangeEvent \<lparr>min_r = mn, max_r = mx, step = st\<rparr>
        # snd (onChange64 (s\<lparr>range_fld := \<lparr>min_r = mn, max_r = mx, step = st\<rparr>\<rparr>)))
   \<and> getRange (fst (range_op s mn mx st)) = \<lparr>min_r = mn, max_r = mx, step = st\<rparr>
   \<and> getRange (fst (range_op64 s mn mx st)) = \<lparr>min_r = mn, max_r = mx, step = st\<rparr>
   \<and> rawValue (fst (range_op s mn mx st)) = rawValue s
   \<and> rawValue (fst (range_op64 s mn mx st)) = rawValue s
   \<and> lastChange (fst (range_op s mn mx st))
       = Some (get_value (fst (range_op s mn mx st)), get_ghostValue (fst (range_op s mn mx st)))
   \<and> lastChange (fst (range_op64 s mn mx st))
       = Some (get_value64 (fst (range_op64 s mn mx st)),
               get_ghostValue64 (fst (range_op64 s mn mx st)))"
proof (intro conjI)
  show "range_op s mn mx st =
     (fst (onChange (s\<lparr>range_fld := \<lparr>min_r = mn, max_r = mx, step = st\<rparr>\<rparr>)),
      RangeEvent \<lparr>min_r = mn, max_r = mx, step = st\<rparr>
        # snd (onChange (s\<lparr>range_fld := \<lparr>min_r = mn, max_r = mx, step = st\<rparr>\<rparr>)))"
    by (rule range_op_alt)
  show "range_op64 s mn mx st =
     (fst (onChange64 (s\<lparr>range_fld := \<lparr>min_r = mn, max_r = mx, step = st\<rparr>\<rparr>)),
      RangeEvent \<lparr>min_r = mn, max_r = mx, step = st\<rparr>
        # snd (onChange64 (s\<lparr>range_fld := \<lparr>min_r = mn, max_r = mx, step = st\<rparr>\<rparr>)))"
    by (rule range_op64_alt)
  show "getRange (fst (range_op s mn mx st)) = \<lparr>min_r = mn, max_r = mx, step = st\<rparr>"
    by (simp add: range_op_alt getRange_def)
  show "getRange (fst (range_op64 s mn mx st)) = \<lparr>min_r = mn, max_r = mx, step = st\<rparr>"
    by (simp add: range_op64_alt getRange_def)
  show "rawValue (fst (range_op s mn mx st)) = rawValue s"
    by (simp add: range_op_alt)
  show "rawValue (fst (range_op64 s mn mx st)) = rawValue s"
    by (simp add: range_op64_alt)
  show "lastChange (fst (range_op s mn mx st))
       = Some (get_value (fst (range_op s mn mx st)), get_ghostValue (fst (range_op s mn mx st)))"
    by (simp add: range_op_alt lastChange_after_onChange)
  show "lastChange (fst (range_op64 s mn mx st))
       = Some (get_value64 (fst (range_op64 s mn mx st)),
               get_ghostValue64 (fst (range_op64 s mn mx st)))"
    by (simp add: range_op64_alt lastChange_after_onChange64)
qed

text \<open>
  The claim C3 says that a call with \<open>min >= max\<close> or \<open>step <= 0\<close> is rejected and the
  range is not installed. The call \<open>range(5, 5, 0)\<close> installs the range and dispatches both
  events.
\<close>

theorem range_invalid_counterexample:
  "\<not> lt (Fin 5) (Fin 5) \<and> \<not> lt (Fin 0) (Fin 0)
   \<and> getRange (fst (range_op detached_slider (Fin 5) (Fin 5) (Fin 0)))
       = \<lparr>min_r = Fin 5, max_r = Fin 5, step = Fin 0\<rparr>
   \<and> snd (range_op detached_slider (Fin 5) (Fin 5) (Fin 0))
       = [RangeEvent \<lparr>min_r = Fin 5, max_r = Fin 5, step = Fin 0\<rparr>,
          Change NaN None True False]"
  by (simp add: detached_slider_def eval_defs getRange_def)

section \<open>Range change\<close>

text \<open>
  C5, as the code has it. A range change keeps the raw position, not the value: after
  \<open>range(min, max, step)\<close> the raw position is what it was, and the value is what the getter
  derives from it under the new range, \<open>clamp(round(x * m) / m, min, max)\<close> with
  \<open>m = 1 / step\<close> and \<open>x = min + r * (max - min)\<close>, every operator rounded to binary64. At the
  raw position 0.5 the value is 5 under \<open>(0, 10, 1)\<close> and becomes 50 under \<open>(0, 100, 1)\<close>.
\<close>

theorem range_change_keeps_fraction:
  "rawValue (fst (range_op64 s mn mx st)) = rawValue s
   \<and> range_fld (fst (range_op64 s mn mx st)) = \<lparr>min_r = mn, max_r = mx, step = st\<rparr>
   \<and> get_value64 (fst (range_op64 s mn mx st))
       = clamp (div64 (Math_round (mul64
                  (add64 mn (mul64 (rawValue s) (sub64 mx mn)))
                  (div64 (Fin 1) st)))
                (div64 (Fin 1) st)) mn mx
   \<and> (rawValue s = Fin (1 / 2)
        \<longrightarrow> get_value64 (fst (range_op64 s (Fin 0) (Fin 10) (Fin 1))) = Fin 5
            \<and> get_value64 (fst (range_op64 (fst (range_op64 s (Fin 0) (Fin 10) (Fin 1)))
                  (Fin 0) (Fin 100) (Fin 1))) = Fin 50)"
proof (intro conjI impI)
  show raw: "rawValue (fst (range_op64 s mn mx st)) = rawValue s"
    by (simp add: range_op64_alt)
  show rg: "range_fld (fst (range_op64 s mn mx st)) = \<lparr>min_r = mn, max_r = mx, step = st\<rparr>"
    by (simp add: range_op64_alt)
  show "get_value64 (fst (range_op64 s mn mx st))
       = clamp (div64 (Math_round (mul64
                  (add64 mn (mul64 (rawValue s) (sub64 mx mn)))
                  (div64 (Fin 1) st)))
                (div64 (Fin 1) st)) mn mx"
    by (simp add: get_value64_formula raw rg)
next
  assume "rawValue s = Fin (1 / 2)"
  then show "get_value64 (fst (range_op64 s (Fin 0) (Fin 10) (Fin 1))) = Fin 5"
    by (simp add: get_value64_formula range_op64_alt ops64 fl64_values clamp_Fin)
next
  assume "rawValue s = Fin (1 / 2)"
  then show "get_value64 (fst (range_op64 (fst (range_op64 s (Fin 0) (Fin 10) (Fin 1)))
                  (Fin 0) (Fin 100) (Fin 1))) = Fin 50"
    by (simp add: get_value64_formula range_op64_alt ops64 fl64_values clamp_Fin)
qed

text \<open>The slider of the constructor at the raw position 0.5.\<close>

theorem range_change_keeps_fraction_witness:
  "rawValue (fst (set_rawValue64 detached_slider (Fin (1 / 2)))) = Fin (1 / 2)
   \<and> get_value64 (fst (range_op64 (fst (set_rawValue64 detached_slider (Fin (1 / 2))))
         (Fin 0) (Fin 10) (Fin 1))) = Fin 5
   \<and> get_value64 (fst (range_op64 (fst (range_op64 (fst (set_rawValue64 detached_slider (Fin (1 / 2))))
         (Fin 0) (Fin 10) (Fin 1))) (Fin 0) (Fin 100) (Fin 1))) = Fin 50"
proof -
  let ?s = "fst (set_rawValue64 detached_slider (Fin (1 / 2)))"
  have raw: "rawValue ?s = Fin (1 / 2)"
    by (simp add: set_rawValue64_def clamp_Fin)
  show ?thesis
    using range_change_keeps_fraction [of ?s] raw by blast
qed

text \<open>
  The claim C5 says that the value after the change is the quantization of
  \<open>min + r * (max - min)\<close>, which the specification defines as the nearest multiple of the
  step, \<open>round(x / step) * step\<close>, clamped. After \<open>range(0, 98, 49)\<close> at the raw position
  0.25 the raw position is still 0.25 and that formula gives 49; the value is 0.
\<close>

theorem range_change_counterexample:
  "lt (Fin 0) (Fin 98) \<and> lt (Fin 0) (Fin 49)
   \<and> rawValue (fst (set_rawValue64 detached_slider (Fin (1 / 4)))) = Fin (1 / 4)
   \<and> rawValue (fst (range_op64 (fst (set_rawValue64 detached_slider (Fin (1 / 4))))
        (Fin 0) (Fin 98) (Fin 49))) = Fin (1 / 4)
   \<and> get_value64 (fst (range_op64 (fst (set_rawValue64 detached_slider (Fin (1 / 4))))
        (Fin 0) (Fin 98) (Fin 49))) = Fin 0
   \<and> spec_quantize64 \<lparr>min_r = Fin 0, max_r = Fin 98, step = Fin 49\<rparr>
        (add64 (Fin 0) (mul64 (Fin (1 / 4)) (sub64 (Fin 98) (Fin 0)))) = Fin 49"
proof -
  let ?s = "fst (set_rawValue64 detached_slider (Fin (1 / 4)))"
  let ?t = "fst (range_op64 ?s (Fin 0) (Fin 98) (Fin 49))"
  have raw: "rawValue ?s = Fin (1 / 4)"
    by (simp add: set_rawValue64_def clamp_Fin)
  have raw': "rawValue ?t = Fin (1 / 4)"
    by (simp add: range_op64_alt raw)
  have rg: "range_fld ?t = \<lparr>min_r = Fin 0, max_r = Fin 98, step = Fin 49\<rparr>"
    by (simp add: range_op64_alt)
  have x: "add64 (Fin 0) (mul64 (Fin (1 / 4)) (sub64 (Fin 98) (Fin 0))) = Fin (49 / 2)"
    by (simp add: ops64 fl64_values)
  have m: "div64 (Fin 1) (Fin 49) = Fin (5882252574524729 / 288230376151711744)"
    by (simp add: ops64 fl64_values)
  have p: "mul64 (Fin (49 / 2)) (Fin (5882252574524729 / 288230376151711744))
      = Fin (9007199254740991 / 18014398509481984)"
    by (simp add: ops64 fl64_values)
  have r: "Math_round (Fin (9007199254740991 / 18014398509481984)) = Fin 0"
    by simp
  have q: "div64 (Fin 0) (Fin (5882252574524729 / 288230376151711744)) = Fin 0"
    by (simp add: ops64)
  have v: "get_value64 ?t = Fin 0"
    by (simp only: get_value64_formula rg raw' slider_range.simps x m p r q)
       (simp add: clamp_Fin)
  have d: "div64 (Fin (49 / 2)) (Fin 49) = Fin (1 / 2)"
    by (simp add: ops64 fl64_values)
  have k: "mul64 (Math_round (Fin (1 / 2))) (Fin 49) = Fin 49"
    by (simp add: ops64 fl64_values)
  have c: "spec_quantize64 \<lparr>min_r = Fin 0, max_r = Fin 98, step = Fin 49\<rparr>
        (add64 (Fin 0) (mul64 (Fin (1 / 4)) (sub64 (Fin 98) (Fin 0)))) = Fin 49"
    by (simp only: spec_quantize64_def slider_range.simps x d k) (simp add: clamp_Fin)
  show ?thesis
    using raw raw' v c by simp
qed


section \<open>Setting the value and reading it back\<close>

lemma set_value64_fields:
  "range_fld (fst (set_value64 s v)) = range_fld s"
  "rawValue (fst (set_value64 s v))
     = div64 (sub64 (adjustValue64 s v) (min_r (range_fld s)))
         (sub64 (max_r (range_fld s)) (min_r (range_fld s)))"
  by (simp_all add: set_value64_alt)

lemma adjustValue64_volume:
  assumes rg: "range_fld s
      = \<lparr>min_r = Fin 0, max_r = Fin 1, step = Fin (3602879701896397 / 72057594037927936)\<rparr>"
  shows "adjustValue64 s (Fin (1 / 2)) = Fin (1 / 2)"
    and "adjustValue64 s (Fin (1170935903116329 / 2251799813685248)) = Fin (1 / 2)"
proof -
  have m: "div64 (Fin 1) (Fin (3602879701896397 / 72057594037927936)) = Fin 20"
    by (simp add: ops64 fl64_values)
  have a: "mul64 (Fin (1 / 2)) (Fin 20) = Fin 10"
    by (simp add: ops64 fl64_values)
  have b: "mul64 (Fin (1170935903116329 / 2251799813685248)) (Fin 20)
      = Fin (5854679515581645 / 562949953421312)"
    by (simp add: ops64 fl64_values)
  have r: "Math_round (Fin (5854679515581645 / 562949953421312)) = Fin 10"
    by simp
  have d: "div64 (Fin 10) (Fin 20) = Fin (1 / 2)"
    by (simp add: ops64 fl64_values)
  show "adjustValue64 s (Fin (1 / 2)) = Fin (1 / 2)"
    by (simp add: adjustValue64_def rg m a d clamp_Fin)
  show "adjustValue64 s (Fin (1170935903116329 / 2251799813685248)) = Fin (1 / 2)"
    by (simp add: adjustValue64_def rg m b r d clamp_Fin)
qed

lemma volume_round_trip:
  assumes rg: "range_fld s
      = \<lparr>min_r = Fin 0, max_r = Fin 1, step = Fin (3602879701896397 / 72057594037927936)\<rparr>"
    and v: "adjustValue64 s v = Fin (1 / 2)"
  shows "get_value64 (fst (set_value64 s v)) = Fin (1 / 2)"
proof -
  let ?t = "fst (set_value64 s v)"
  have rt: "range_fld ?t
      = \<lparr>min_r = Fin 0, max_r = Fin 1, step = Fin (3602879701896397 / 72057594037927936)\<rparr>"
    by (simp add: set_value64_fields rg)
  have raw: "rawValue ?t = Fin (1 / 2)"
    by (simp add: set_value64_fields v rg ops64 fl64_values)
  have x: "add64 (Fin 0) (mul64 (Fin (1 / 2)) (sub64 (Fin 1) (Fin 0))) = Fin (1 / 2)"
    by (simp add: ops64 fl64_values)
  show ?thesis
    by (simp add: get_value64_def raw rt x adjustValue64_volume(1) [OF rt])
qed

text \<open>
  C4, as the code has it. A set \<open>value = v\<close> stores the fraction
  \<open>f = (q(v) - min) / (max - min)\<close>, and the read of the value that follows gives
  \<open>q(min + f * (max - min))\<close>, where \<open>q\<close> is \<open>#adjustValue\<close> and every operator is rounded to
  binary64. The range stays. Under finite bounds with \<open>min <= max\<close> the number read is NaN
  or lies in \<open>[min, max]\<close>. With the range \<open>(0, 1, 0.05)\<close>, a set of 0.5 reads back 0.5 and a
  set of 0.52 reads back 0.5, the literals being the binary64 numbers nearest to them.
\<close>

theorem set_then_read_binary64:
  "range_fld (fst (set_value64 s v)) = range_fld s
   \<and> rawValue (fst (set_value64 s v))
       = div64 (sub64 (adjustValue64 s v) (min_r (range_fld s)))
           (sub64 (max_r (range_fld s)) (min_r (range_fld s)))
   \<and> get_value64 (fst (set_value64 s v))
       = adjustValue64 s
           (add64 (min_r (range_fld s))
              (mul64 (div64 (sub64 (adjustValue64 s v) (min_r (range_fld s)))
                        (sub64 (max_r (range_fld s)) (min_r (range_fld s))))
                 (sub64 (max_r (range_fld s)) (min_r (range_fld s)))))
   \<and> (range_fld s = \<lparr>min_r = Fin a, max_r = Fin b, step = st\<rparr> \<and> a \<le> b
        \<longrightarrow> get_value64 (fst (set_value64 s v)) = NaN
            \<or> (\<exists>z. get_value64 (fst (set_value64 s v)) = Fin z \<and> a \<le> z \<and> z \<le> b))
   \<and> (range_fld s = \<lparr>min_r = Fin 0, max_r = Fin 1, step = fl64 (1 / 20)\<rparr>
        \<longrightarrow> get_value64 (fst (set_value64 s (Fin (1 / 2)))) = Fin (1 / 2)
            \<and> get_value64 (fst (set_value64 s (fl64 (52 / 100)))) = Fin (1 / 2))"
proof (intro conjI impI)
  let ?t = "fst (set_value64 s v)"
  show "range_fld ?t = range_fld s"
    and "rawValue ?t = div64 (sub64 (adjustValue64 s v) (min_r (range_fld s)))
           (sub64 (max_r (range_fld s)) (min_r (range_fld s)))"
    by (rule set_value64_fields)+
  have adj: "\<And>x. adjustValue64 ?t x = adjustValue64 s x"
    by (rule adjustValue64_cong) (simp add: set_value64_fields)
  show "get_value64 ?t
       = adjustValue64 s
           (add64 (min_r (range_fld s))
              (mul64 (div64 (sub64 (adjustValue64 s v) (min_r (range_fld s)))
                        (sub64 (max_r (range_fld s)) (min_r (range_fld s))))
                 (sub64 (max_r (range_fld s)) (min_r (range_fld s)))))"
    by (simp add: get_value64_def adj set_value64_fields)
next
  assume h: "range_fld s = \<lparr>min_r = Fin a, max_r = Fin b, step = st\<rparr> \<and> a \<le> b"
  then have rg: "range_fld (fst (set_value64 s v)) = \<lparr>min_r = Fin a, max_r = Fin b, step = st\<rparr>"
    by (simp add: set_value64_fields)
  show "get_value64 (fst (set_value64 s v)) = NaN
      \<or> (\<exists>z. get_value64 (fst (set_value64 s v)) = Fin z \<and> a \<le> z \<and> z \<le> b)"
    using adjustValue64_finite_range [OF rg] h unfolding get_value64_def by blast
next
  assume "range_fld s = \<lparr>min_r = Fin 0, max_r = Fin 1, step = fl64 (1 / 20)\<rparr>"
  then have rg: "range_fld s
      = \<lparr>min_r = Fin 0, max_r = Fin 1, step = Fin (3602879701896397 / 72057594037927936)\<rparr>"
    by (simp add: fl64_values)
  show "get_value64 (fst (set_value64 s (Fin (1 / 2)))) = Fin (1 / 2)"
    by (rule volume_round_trip [OF rg adjustValue64_volume(1) [OF rg]])
next
  assume "range_fld s = \<lparr>min_r = Fin 0, max_r = Fin 1, step = fl64 (1 / 20)\<rparr>"
  then have rg: "range_fld s
      = \<lparr>min_r = Fin 0, max_r = Fin 1, step = Fin (3602879701896397 / 72057594037927936)\<rparr>"
    by (simp add: fl64_values)
  have d: "fl64 (52 / 100) = Fin (1170935903116329 / 2251799813685248)"
    by (simp add: fl64_values)
  show "get_value64 (fst (set_value64 s (fl64 (52 / 100)))) = Fin (1 / 2)"
    unfolding d by (rule volume_round_trip [OF rg adjustValue64_volume(2) [OF rg]])
qed

text \<open>The volume slider of the player has the range \<open>(0, 1, 0.05)\<close>.\<close>

theorem set_then_read_binary64_witness:
  "range_fld (fst (range_op64 detached_slider (Fin 0) (Fin 1) (fl64 (1 / 20))))
     = \<lparr>min_r = Fin 0, max_r = Fin 1, step = fl64 (1 / 20)\<rparr>
   \<and> get_value64 (fst (set_value64 (fst (range_op64 detached_slider (Fin 0) (Fin 1) (fl64 (1 / 20))))
         (fl64 (52 / 100)))) = Fin (1 / 2)"
proof -
  let ?s = "fst (range_op64 detached_slider (Fin 0) (Fin 1) (fl64 (1 / 20)))"
  have rg: "range_fld ?s = \<lparr>min_r = Fin 0, max_r = Fin 1, step = fl64 (1 / 20)\<rparr>"
    by (simp add: range_op64_alt)
  have "get_value64 (fst (set_value64 ?s (fl64 (52 / 100)))) = Fin (1 / 2)"
    using set_then_read_binary64 [of ?s] rg by blast
  then show ?thesis
    using rg by simp
qed

text \<open>
  The claim C4 says that the number read is \<open>clamp(round(v / step) * step, min, max)\<close> for
  every valid range. With the range \<open>(0, 9, 4)\<close> and \<open>v = 11\<close> that is \<open>clamp(12, 0, 9) = 9\<close>,
  which is also what \<open>#adjustValue\<close> returns for 11; the setter stores the fraction 1, and
  the getter returns \<open>#adjustValue\<close> of 9, which is 8. All these numbers are binary64
  numbers and no operation rounds.
\<close>

theorem set_then_read_counterexample:
  "lt (Fin 0) (Fin 9) \<and> lt (Fin 0) (Fin 4)
   \<and> get_value64 (fst (set_value64 (fst (range_op64 detached_slider (Fin 0) (Fin 9) (Fin 4)))
        (Fin 11))) = Fin 8
   \<and> spec_quantize64 \<lparr>min_r = Fin 0, max_r = Fin 9, step = Fin 4\<rparr> (Fin 11) = Fin 9
   \<and> adjustValue64 (fst (range_op64 detached_slider (Fin 0) (Fin 9) (Fin 4))) (Fin 11) = Fin 9"
proof -
  let ?s = "fst (range_op64 detached_slider (Fin 0) (Fin 9) (Fin 4))"
  let ?t = "fst (set_value64 ?s (Fin 11))"
  have rg: "range_fld ?s = \<lparr>min_r = Fin 0, max_r = Fin 9, step = Fin 4\<rparr>"
    by (simp add: range_op64_alt)
  have m: "div64 (Fin 1) (Fin 4) = Fin (1 / 4)"
    by (simp add: ops64 fl64_values)
  have a11: "adjustValue64 ?s (Fin 11) = Fin 9"
    by (simp add: adjustValue64_def rg m) (simp add: ops64 fl64_values clamp_Fin)
  have rt: "range_fld ?t = \<lparr>min_r = Fin 0, max_r = Fin 9, step = Fin 4\<rparr>"
    by (simp add: set_value64_fields rg)
  have raw: "rawValue ?t = Fin 1"
    by (simp add: set_value64_fields a11 rg ops64 fl64_values)
  have v: "get_value64 ?t = Fin 8"
    by (simp add: get_value64_def adjustValue64_def raw rt m)
       (simp add: ops64 fl64_values clamp_Fin)
  have c: "spec_quantize64 \<lparr>min_r = Fin 0, max_r = Fin 9, step = Fin 4\<rparr> (Fin 11) = Fin 9"
    by (simp add: spec_quantize64_def ops64 fl64_values clamp_Fin)
  show ?thesis
    using v c a11 by simp
qed

text \<open>
  Bounds that are multiples of the step do not make the read the formula of the claim:
  with the range \<open>(0, 980, 49)\<close>, a set of 24.5 is adjusted to 0 and reads back 0, where
  \<open>round(24.5 / 49) * 49\<close> is 49.
\<close>

lemma round_trip_on_grid:
  "get_value64 (fst (set_value64 (fst (range_op64 detached_slider (Fin 0) (Fin 980) (Fin 49)))
        (Fin (49 / 2)))) = Fin 0
   \<and> spec_quantize64 \<lparr>min_r = Fin 0, max_r = Fin 980, step = Fin 49\<rparr> (Fin (49 / 2)) = Fin 49"
proof -
  let ?s = "fst (range_op64 detached_slider (Fin 0) (Fin 980) (Fin 49))"
  let ?t = "fst (set_value64 ?s (Fin (49 / 2)))"
  have rg: "range_fld ?s = \<lparr>min_r = Fin 0, max_r = Fin 980, step = Fin 49\<rparr>"
    by (simp add: range_op64_alt)
  have m: "div64 (Fin 1) (Fin 49) = Fin (5882252574524729 / 288230376151711744)"
    by (simp add: ops64 fl64_values)
  have p: "mul64 (Fin (49 / 2)) (Fin (5882252574524729 / 288230376151711744))
      = Fin (9007199254740991 / 18014398509481984)"
    by (simp add: ops64 fl64_values)
  have r: "Math_round (Fin (9007199254740991 / 18014398509481984)) = Fin 0"
    by simp
  have q: "div64 (Fin 0) (Fin (5882252574524729 / 288230376151711744)) = Fin 0"
    by (simp add: ops64)
  have a: "adjustValue64 ?s (Fin (49 / 2)) = Fin 0"
    by (simp add: adjustValue64_def rg m p r q clamp_Fin)
  have rt: "range_fld ?t = \<lparr>min_r = Fin 0, max_r = Fin 980, step = Fin 49\<rparr>"
    by (simp add: set_value64_fields rg)
  have raw: "rawValue ?t = Fin 0"
    by (simp add: set_value64_fields a rg ops64 fl64_980)
  have z: "mul64 (Fin 0) (Fin (5882252574524729 / 288230376151711744)) = Fin 0"
    by (simp add: ops64)
  have x: "add64 (Fin 0) (mul64 (Fin 0) (sub64 (Fin 980) (Fin 0))) = Fin 0"
    by (simp add: ops64 fl64_980)
  have v: "get_value64 ?t = Fin 0"
    by (simp add: get_value64_def adjustValue64_def raw rt x m z q clamp_Fin)
  have d: "div64 (Fin (49 / 2)) (Fin 49) = Fin (1 / 2)"
    by (simp add: ops64 fl64_values)
  have c: "spec_quantize64 \<lparr>min_r = Fin 0, max_r = Fin 980, step = Fin 49\<rparr> (Fin (49 / 2)) = Fin 49"
    by (simp add: spec_quantize64_def d) (simp add: ops64 fl64_values clamp_Fin)
  show ?thesis
    using v c by simp
qed

section \<open>Pointer commit and hover\<close>

text \<open>\<open>movePointer\<close> for an event that has a coordinate.\<close>

lemma movePointer_alt:
  "event_clientX e = Inr x \<Longrightarrow>
   movePointer e s =
     Inr (onChange
       (s\<lparr>containerBBox := snd (get_bbox_value (containerBBox s)),
          rawValue := clamp (divide_n (sub x (left (fst (get_bbox_value (containerBBox s)))))
                        (width (fst (get_bbox_value (containerBBox s))))) (Fin 0) (Fin 1),
          ghostSliderValue := None\<rparr>))"
  by (simp add: movePointer_def Let_def split_def)

lemma movePointer_ghost:
  assumes "movePointer e s = Inr (s', evs)"
  shows "ghostSliderValue s' = None"
proof (cases "event_clientX e")
  case (Inl err)
  then show ?thesis
    using assms by (simp add: movePointer_def)
next
  case (Inr x)
  have "fst (s', evs) = fst (onChange
       (s\<lparr>containerBBox := snd (get_bbox_value (containerBBox s)),
          rawValue := clamp (divide_n (sub x (left (fst (get_bbox_value (containerBBox s)))))
                        (width (fst (get_bbox_value (containerBBox s))))) (Fin 0) (Fin 1),
          ghostSliderValue := None\<rparr>))"
    using assms movePointer_alt [OF Inr, of s] by simp
  then show ?thesis
    by simp
qed

lemma get_ghostValue_None: "ghostSliderValue s = None \<Longrightarrow> get_ghostValue s = None"
  by (simp add: get_ghostValue_def)



lemma movePointer_returns:
  "event_clientX e = Inr x \<Longrightarrow> \<exists>t evs. movePointer e s = Inr (t, evs)"
  using movePointer_alt [of e x s] by (metis surj_pair)

lemma changeGhostSlider_frame:
  "rawValue (fst (changeGhostSlider x y s)) = rawValue s"
  "range_fld (fst (changeGhostSlider x y s)) = range_fld s"
  "sliding (fst (changeGhostSlider x y s)) = sliding s"
  by (simp_all add: changeGhostSlider_def Let_def split_def)

text \<open>
  C7. The hover handler \<open>changeGhostSlider\<close> leaves the raw position, the range and the
  sliding mode, hence the value; beside the ghost position it writes the caches, the
  styles and the record of the last notification only. Every commit, a click or a move
  while sliding, leaves the ghost position \<open>null\<close>, and a click of a mouse event always
  commits.
\<close>

theorem ghost_independence:
  "rawValue (fst (changeGhostSlider x y s)) = rawValue s
   \<and> range_fld (fst (changeGhostSlider x y s)) = range_fld s
   \<and> sliding (fst (changeGhostSlider x y s)) = sliding s
   \<and> get_value (fst (changeGhostSlider x y s)) = get_value s
   \<and> (onClick e s = Inr (s', evs) \<longrightarrow> ghostSliderValue s' = None \<and> get_ghostValue s' = None)
   \<and> (sliding s \<and> onMove e s = Inr (s', evs)
        \<longrightarrow> ghostSliderValue s' = None \<and> get_ghostValue s' = None)
   \<and> (\<exists>t evs'. onClick (MouseEvent cx cy) s = Inr (t, evs') \<and> ghostSliderValue t = None)"
proof (intro conjI impI)
  show "rawValue (fst (changeGhostSlider x y s)) = rawValue s"
    and "range_fld (fst (changeGhostSlider x y s)) = range_fld s"
    and "sliding (fst (changeGhostSlider x y s)) = sliding s"
    by (rule changeGhostSlider_frame)+
  show "get_value (fst (changeGhostSlider x y s)) = get_value s"
    by (rule get_value_cong) (rule changeGhostSlider_frame)+
next
  assume "onClick e s = Inr (s', evs)"
  then have g: "ghostSliderValue s' = None"
    by (simp add: onClick_def movePointer_ghost)
  then show "ghostSliderValue s' = None" and "get_ghostValue s' = None"
    by (simp_all add: get_ghostValue_None)
next
  assume "sliding s \<and> onMove e s = Inr (s', evs)"
  then have "movePointer e s = Inr (s', evs)"
    by (auto simp: onMove_def)
  then have g: "ghostSliderValue s' = None"
    by (rule movePointer_ghost)
  then show "ghostSliderValue s' = None" and "get_ghostValue s' = None"
    by (simp_all add: get_ghostValue_None)
next
  have cx: "event_clientX (MouseEvent cx cy) = Inr cx"
    by (simp add: event_clientX_def)
  obtain t evs' where mp: "movePointer (MouseEvent cx cy) s = Inr (t, evs')"
    using movePointer_returns [OF cx, of s] by blast
  then have "ghostSliderValue t = None"
    by (rule movePointer_ghost)
  with mp show "\<exists>t evs'. onClick (MouseEvent cx cy) s = Inr (t, evs') \<and> ghostSliderValue t = None"
    by (auto simp: onClick_def)
qed


text \<open>A hover over the track sets the ghost position; a move while sliding and a click clear it.\<close>

theorem ghost_independence_witness:
  "rawValue (fst (changeGhostSlider (Fin 84) (Fin 25) track_slider)) = Fin 0
   \<and> ghostSliderValue (fst (changeGhostSlider (Fin 84) (Fin 25) track_slider)) = Some (Fin (37 / 100))
   \<and> sliding (onDrag (fst (changeGhostSlider (Fin 84) (Fin 25) track_slider)))
   \<and> (\<exists>t evs. onMove (MouseEvent (Fin 110) (Fin 25))
                  (onDrag (fst (changeGhostSlider (Fin 84) (Fin 25) track_slider))) = Inr (t, evs)
          \<and> ghostSliderValue t = None)
   \<and> (\<exists>t evs. onClick (MouseEvent (Fin 110) (Fin 25))
                  (fst (changeGhostSlider (Fin 84) (Fin 25) track_slider)) = Inr (t, evs)
          \<and> ghostSliderValue t = None)"
proof -
  let ?h = "fst (changeGhostSlider (Fin 84) (Fin 25) track_slider)"
  let ?e = "MouseEvent (Fin 110) (Fin 25)"
  have raw0: "rawValue track_slider = Fin 0"
    by (simp add: track_slider_def slider_constructor_def range_op_alt)
  have raw: "rawValue ?h = Fin 0"
    using ghost_independence [of "Fin 84" "Fin 25" track_slider] raw0 by simp
  have pb: "sliderPaddingBBox track_slider = \<lparr>element = padding_box, bbox = None\<rparr>"
    by (simp add: track_slider_def slider_constructor_def range_op_alt CachedBBox_constructor_def)
  have cb: "containerBBox track_slider = \<lparr>element = track_box, bbox = Some track_box\<rparr>"
    by (simp add: track_slider_def slider_constructor_def range_op_alt get_bbox_value_def
        reFetchBBox_def CachedBBox_constructor_def)
  have gh: "ghostSliderValue ?h = Some (Fin (37 / 100))"
    by (simp add: changeGhostSlider_def Let_def split_def pb cb get_bbox_value_def reFetchBBox_def
        isPointWithinBBox_def padding_box_def track_box_def sub_def clamp_Fin)
  have sl: "sliding (onDrag ?h)"
    by (simp add: onDrag_def)
  have cx: "event_clientX ?e = Inr (Fin 110)"
    by (simp add: event_clientX_def)
  obtain t evs where mv: "onMove ?e (onDrag ?h) = Inr (t, evs)"
    using sl movePointer_returns [OF cx, of "onDrag ?h"] by (auto simp: onMove_def)
  have "ghostSliderValue t = None"
    using ghost_independence [of _ _ "onDrag ?h" ?e t evs] sl mv by blast
  then have drag: "\<exists>t evs. onMove ?e (onDrag ?h) = Inr (t, evs) \<and> ghostSliderValue t = None"
    using mv by blast
  obtain u evs' where ck: "onClick ?e ?h = Inr (u, evs')"
    using movePointer_returns [OF cx, of ?h] by (auto simp: onClick_def)
  have "ghostSliderValue u = None"
    using ghost_independence [of _ _ ?h ?e u evs'] ck by blast
  then have click: "\<exists>t evs. onClick ?e ?h = Inr (t, evs) \<and> ghostSliderValue t = None"
    using ck by blast
  show ?thesis
    using raw gh sl drag click by blast
qed

section \<open>The raw position\<close>

text \<open>
  Each write of the raw position gives NaN or a number in \<open>[0, 1]\<close>: \<open>clamp\<close> with the
  bounds 0 and 1, and the fraction that the setter of the value computes, for every range.
\<close>

lemma clamp_unit: "x \<noteq> NaN \<Longrightarrow> in_unit (clamp x (Fin 0) (Fin 1))"
  by (cases x) (auto simp: clamp_def Math_min_def Math_max_def in_unit_def)

lemma clamp_unit_or_NaN: "unit_or_NaN (clamp x (Fin 0) (Fin 1))"
  by (cases x) (auto simp: clamp_def Math_min_def Math_max_def in_unit_def unit_or_NaN_def)

lemma fraction_finite:
  "mn < mx \<Longrightarrow> mn \<le> z \<Longrightarrow> z \<le> mx \<Longrightarrow>
   in_unit (divide_n (sub (Fin z) (Fin mn)) (sub (Fin mx) (Fin mn)))"
  by (simp add: sub_def in_unit_def divide_le_eq)

lemma fraction_unit_or_NaN:
  "unit_or_NaN (divide_n (sub (clamp q mn mx) mn) (sub mx mn))"
proof (cases "\<exists>a b. mn = Fin a \<and> mx = Fin b \<and> a < b")
  case True
  then obtain a b where ab: "mn = Fin a" "mx = Fin b" "a < b"
    by blast
  consider "clamp q mn mx = NaN" | z where "clamp q mn mx = Fin z" "a \<le> z" "z \<le> b"
    using clamp_finite_bounds [of q a b] ab by auto
  then show ?thesis
  proof cases
    case 1
    then show ?thesis by (simp add: unit_or_NaN_def sub_def)
  next
    case 2
    then show ?thesis
      using fraction_finite [of a b z] ab by (simp add: unit_or_NaN_def)
  qed
next
  case False
  then show ?thesis
    by (cases q; cases mn; cases mx)
       (auto simp: clamp_def Math_min_def Math_max_def sub_def in_unit_def unit_or_NaN_def)
qed

lemma movePointer_raw:
  assumes "movePointer e s = Inr (s', evs)"
  shows "unit_or_NaN (rawValue s')"
proof (cases "event_clientX e")
  case (Inl err)
  then show ?thesis
    using assms by (simp add: movePointer_def)
next
  case (Inr x)
  have "fst (s', evs) = fst (onChange
       (s\<lparr>containerBBox := snd (get_bbox_value (containerBBox s)),
          rawValue := clamp (divide_n (sub x (left (fst (get_bbox_value (containerBBox s)))))
                        (width (fst (get_bbox_value (containerBBox s))))) (Fin 0) (Fin 1),
          ghostSliderValue := None\<rparr>))"
    using assms movePointer_alt [OF Inr, of s] by simp
  then show ?thesis
    by (simp add: clamp_unit_or_NaN)
qed

lemma set_value_raw: "unit_or_NaN (rawValue (fst (set_value s v)))"
  by (simp add: set_value_fields adjustValue_def Let_def fraction_unit_or_NaN)

lemma step_input_raw:
  assumes "unit_or_NaN (rawValue s)"
  shows "unit_or_NaN (rawValue (fst (step_input i s)))"
proof (cases i)
  case (CallRange mn mx st)
  then show ?thesis using assms by (simp add: range_op_alt)
next
  case (SetRawValue x)
  then show ?thesis by (simp add: set_rawValue_def clamp_unit_or_NaN)
next
  case (SetValue v)
  then show ?thesis by (simp add: set_value_raw)
next
  case DragStart
  then show ?thesis using assms by (simp add: onDrag_def)
next
  case DragEnd
  then show ?thesis using assms by (simp add: onDragEnd_def)
next
  case (PointerMove e)
  then show ?thesis
    using assms
    by (cases "movePointer e s") (auto simp: listener_def onMove_def movePointer_raw)
next
  case (Click e)
  then show ?thesis
    using assms
    by (cases "movePointer e s") (auto simp: listener_def onClick_def movePointer_raw)
next
  case (Hover x y)
  then show ?thesis using assms by (simp add: changeGhostSlider_frame)
next
  case ContainerResized
  then show ?thesis using assms by simp
next
  case PaddingResized
  then show ?thesis using assms by (simp add: onResize_def)
next
  case (Layout c p)
  then show ?thesis using assms by simp
qed

lemma run_raw:
  "unit_or_NaN (rawValue s) \<Longrightarrow> unit_or_NaN (rawValue (fst (run inputs s)))"
proof (induction inputs arbitrary: s)
  case Nil
  then show ?case by simp
next
  case (Cons i rest)
  have "unit_or_NaN (rawValue (fst (run rest (fst (step_input i s)))))"
    using Cons.IH [OF step_input_raw [OF Cons.prems, of i]] .
  then show ?case
    by (simp add: split_def Let_def)
qed

text \<open>
  What the code keeps of the bound on the raw position: it is 0 after the construction and,
  whatever happens to the slider, it is NaN or lies in \<open>[0, 1]\<close>. It lies in \<open>[0, 1]\<close> after
  the setter of the raw value with an argument other than NaN, after a pointer commit that
  does not compute NaN, and after the setter of the value under a finite range with
  \<open>min < max\<close> when the adjusted value is not NaN.
\<close>

lemma rawValue_unit_or_NaN:
  "rawValue (fst (slider_constructor c p)) = Fin 0
   \<and> unit_or_NaN (rawValue (fst (run inputs (fst (slider_constructor c p)))))
   \<and> (x \<noteq> NaN \<longrightarrow> in_unit (rawValue (fst (set_rawValue s x))))
   \<and> (movePointer e s = Inr (s', evs) \<and> rawValue s' \<noteq> NaN \<longrightarrow> in_unit (rawValue s'))
   \<and> (range_fld s = \<lparr>min_r = Fin mn, max_r = Fin mx, step = st\<rparr> \<and> mn < mx
        \<and> adjustValue s v \<noteq> NaN
        \<longrightarrow> in_unit (rawValue (fst (set_value s v))))"
proof (intro conjI impI)
  show c0: "rawValue (fst (slider_constructor c p)) = Fin 0"
    by (simp add: slider_constructor_def range_op_alt)
  then have "unit_or_NaN (rawValue (fst (slider_constructor c p)))"
    by (simp add: unit_or_NaN_def in_unit_def)
  then show "unit_or_NaN (rawValue (fst (run inputs (fst (slider_constructor c p)))))"
    by (rule run_raw)
next
  assume "x \<noteq> NaN"
  then show "in_unit (rawValue (fst (set_rawValue s x)))"
    by (simp add: set_rawValue_def clamp_unit)
next
  assume "movePointer e s = Inr (s', evs) \<and> rawValue s' \<noteq> NaN"
  then show "in_unit (rawValue s')"
    using movePointer_raw [of e s s' evs] by (simp add: unit_or_NaN_def)
next
  assume h: "range_fld s = \<lparr>min_r = Fin mn, max_r = Fin mx, step = st\<rparr> \<and> mn < mx
        \<and> adjustValue s v \<noteq> NaN"
  then obtain z where z: "adjustValue s v = Fin z" "mn \<le> z" "z \<le> mx"
    using adjustValue_finite_range [of s mn mx st v] by auto
  show "in_unit (rawValue (fst (set_value s v)))"
    using h z fraction_finite [of mn mx z] by (simp add: set_value_fields)
qed

text \<open>
  C8. The raw position of the slider always lies in \<open>[0, 1]\<close>: every operation that writes
  it clamps it or maps a clamped value into \<open>[0, 1]\<close>.

  The code does not keep this: \<open>Math.min\<close> and \<open>Math.max\<close> return NaN for NaN, so \<open>clamp\<close>
  lets NaN through. A click at \<open>clientX = 0\<close> on a slider whose container has the box of
  zeros computes \<open>0 / 0\<close>; the setter of the raw value stores NaN when it is given NaN, and so
  does the setter of the value under the range \<open>(0, 100, 1)\<close>.
\<close>

theorem rawValue_NaN:
  "rawValue (fst (step_input (Click (MouseEvent (Fin 0) (Fin 0))) detached_slider)) = NaN
   \<and> rawValue (fst (step_input (SetRawValue NaN) track_slider)) = NaN
   \<and> rawValue (fst (step_input (SetValue NaN) track_slider)) = NaN
   \<and> \<not> in_unit NaN"
proof -
  have cb: "containerBBox detached_slider = \<lparr>element = detached_box, bbox = Some detached_box\<rparr>"
    by (simp add: detached_slider_def slider_constructor_def range_op_alt get_bbox_value_def
        reFetchBBox_def CachedBBox_constructor_def)
  have cx: "event_clientX (MouseEvent (Fin 0) (Fin 0)) = Inr (Fin 0)"
    by (simp add: event_clientX_def)
  have "rawValue (fst (step_input (Click (MouseEvent (Fin 0) (Fin 0))) detached_slider)) = NaN"
    by (simp add: listener_def onClick_def movePointer_alt [OF cx] cb get_bbox_value_def
        detached_box_def sub_def clamp_def Math_min_def Math_max_def)
  moreover have "rawValue (fst (step_input (SetRawValue NaN) track_slider)) = NaN"
    by (simp add: set_rawValue_def clamp_def Math_min_def Math_max_def)
  moreover have "rawValue (fst (step_input (SetValue NaN) track_slider)) = NaN"
    by (simp add: set_value_fields sub_def)
  ultimately show ?thesis
    by (simp add: in_unit_def)
qed

section \<open>The cached bounding box\<close>

text \<open>
  Once a signal has filled the cache it is never empty again, and it holds the layout that
  the element had at the last signal.
\<close>

lemma cache_run_append: "cache_run (xs @ ys) c = cache_run ys (cache_run xs c)"
  by (induction xs arbitrary: c) simp_all

lemma cache_after_signal:
  assumes "bbox c0 = Some (element c0)"
  shows "\<exists>before after. post = before @ after
           \<and> bbox (cache_run post c0) = Some (element (cache_run before c0))"
proof (induction post rule: rev_induct)
  case Nil
  then show ?case using assms by simp
next
  case (snoc x xs)
  then obtain before after where
    ba: "xs = before @ after" "bbox (cache_run xs c0) = Some (element (cache_run before c0))"
    by blast
  show ?case
  proof (cases x)
    case (Relayout b)
    then have "bbox (cache_run (xs @ [x]) c0) = Some (element (cache_run before c0))"
      using ba by (simp add: cache_run_append relayout_def)
    then show ?thesis
      using ba(1) by (intro exI [of _ before] exI [of _ "after @ [x]"]) simp
  next
    case ResizeSignal
    then have "bbox (cache_run (xs @ [x]) c0) = Some (element (cache_run (xs @ [x]) c0))"
      by (simp add: cache_run_append resizeObserver_callback_def reFetchBBox_def)
    then show ?thesis
      by (intro exI [of _ "xs @ [x]"] exI [of _ "[]"]) simp
  next
    case ReadValue
    then have "bbox (cache_run (xs @ [x]) c0) = Some (element (cache_run before c0))"
      using ba by (simp add: cache_run_append get_bbox_value_def)
    then show ?thesis
      using ba(1) by (intro exI [of _ before] exI [of _ "after @ [x]"]) simp
  qed
qed

text \<open>
  C9. A resize signal refetches the box at once: after it the cache holds the layout that
  the element has at the signal, before any read. Every read after a resize signal, with
  any layouts, signals and reads in between, returns the layout that the element had at
  that signal or at a later moment. A box read before a new layout is not what a read
  after the signal returns.
\<close>

theorem cache_fresh_after_resize:
  "bbox (cache_step ResizeSignal c) = Some (element c)
   \<and> (\<exists>before after. post = before @ after
         \<and> fst (get_bbox_value (cache_run (pre @ ResizeSignal # post) c))
             = element (cache_run (pre @ ResizeSignal # before) c))
   \<and> fst (get_bbox_value (cache_run [ReadValue, Relayout b, ResizeSignal, ReadValue]
            (CachedBBox_constructor a))) = b"
proof (intro conjI)
  show "bbox (cache_step ResizeSignal c) = Some (element c)"
    by (simp add: resizeObserver_callback_def reFetchBBox_def)
next
  let ?c0 = "cache_step ResizeSignal (cache_run pre c)"
  have "bbox ?c0 = Some (element ?c0)"
    by (simp add: resizeObserver_callback_def reFetchBBox_def)
  then obtain before after where
    ba: "post = before @ after" "bbox (cache_run post ?c0) = Some (element (cache_run before ?c0))"
    using cache_after_signal [of ?c0 post] by blast
  have run: "\<And>ys. cache_run (pre @ ResizeSignal # ys) c = cache_run ys ?c0"
    by (simp add: cache_run_append)
  have "fst (get_bbox_value (cache_run (pre @ ResizeSignal # post) c))
      = element (cache_run (pre @ ResizeSignal # before) c)"
    using ba(2) by (simp only: run get_bbox_value_def) simp
  then show "\<exists>before after. post = before @ after
         \<and> fst (get_bbox_value (cache_run (pre @ ResizeSignal # post) c))
             = element (cache_run (pre @ ResizeSignal # before) c)"
    using ba(1) by blast
next
  have r1: "cache_step ReadValue (CachedBBox_constructor a) = \<lparr>element = a, bbox = Some a\<rparr>"
    by (simp add: CachedBBox_constructor_def get_bbox_value_def reFetchBBox_def)
  have r2: "cache_step (Relayout b) \<lparr>element = a, bbox = Some a\<rparr>
      = \<lparr>element = b, bbox = Some a\<rparr>"
    by (simp add: relayout_def)
  have r3: "cache_step ResizeSignal \<lparr>element = b, bbox = Some a\<rparr>
      = \<lparr>element = b, bbox = Some b\<rparr>"
    by (simp add: resizeObserver_callback_def reFetchBBox_def)
  have r4: "cache_step ReadValue \<lparr>element = b, bbox = Some b\<rparr> = \<lparr>element = b, bbox = Some b\<rparr>"
    by (simp add: get_bbox_value_def)
  have "cache_run [ReadValue, Relayout b, ResizeSignal, ReadValue] (CachedBBox_constructor a)
      = \<lparr>element = b, bbox = Some b\<rparr>"
    by (simp only: cache_run.simps r1 r2 r3 r4)
  then show "fst (get_bbox_value (cache_run [ReadValue, Relayout b, ResizeSignal, ReadValue]
            (CachedBBox_constructor a))) = b"
    by (simp add: get_bbox_value_def)
qed

end
